theory Spec2Isabelle
  imports Complex_Main
begin

section \<open>JavaScript values\<close>

text \<open>
  The validator reads a document tree of plain data: \<open>undefined\<close>, \<open>null\<close>, booleans,
  numbers, strings, arrays and records (objects holding data properties only; no functions,
  accessors or symbols). A number is \<open>NaN\<close>, an infinity or a finite value; a finite double
  is modelled by the rational it denotes (\<open>-0\<close> and \<open>0\<close> are the same rational: the
  validator cannot tell them apart). A record is an association list read with \<open>map_of\<close>.
  A string is a list of characters; every text of the program is ASCII.
\<close>

datatype jsnum = NaN | PosInf | NegInf | Fin rat

datatype jsval =
    JUndefined
  | JNull
  | JBool bool
  | JNum jsnum
  | JStr string
  | JArr "jsval list"
  | JObj "(string \<times> jsval) list"

text \<open>The only exception the validator can raise is the runtime's \<open>TypeError\<close>.\<close>

datatype fault = TypeError

text \<open>The runtime's conversion of a number to a string is not part of the program: it is
  a parameter of the model.\<close>

type_synonym numfmt = "jsnum \<Rightarrow> string"

fun truthy :: "jsval \<Rightarrow> bool" where
  "truthy JUndefined = False"
| "truthy JNull = False"
| "truthy (JBool b) = b"
| "truthy (JNum n) = (case n of NaN \<Rightarrow> False | Fin r \<Rightarrow> r \<noteq> 0 | _ \<Rightarrow> True)"
| "truthy (JStr s) = (s \<noteq> [])"
| "truthy (JArr xs) = True"
| "truthy (JObj ps) = True"

definition nullish :: "jsval \<Rightarrow> bool" where
  "nullish v = (v = JUndefined \<or> v = JNull)"

text \<open>
  \<open>o.name\<close> for the data property names the validator reads (none of them is an index,
  \<open>length\<close> or an inherited method): reading a property of \<open>undefined\<close> or \<open>null\<close>
  throws, a record yields the stored value or \<open>undefined\<close>, every other value yields
  \<open>undefined\<close>.
\<close>

fun get_member :: "jsval \<Rightarrow> string \<Rightarrow> fault + jsval" where
  "get_member JUndefined k = Inl TypeError"
| "get_member JNull k = Inl TypeError"
| "get_member (JObj ps) k = Inr (case map_of ps k of None \<Rightarrow> JUndefined | Some v \<Rightarrow> v)"
| "get_member v k = Inr JUndefined"

text \<open>\<open>o[0]\<close>: the first element of an array, the first character of a string, the
  property \<open>"0"\<close> of a record.\<close>

fun get_index0 :: "jsval \<Rightarrow> fault + jsval" where
  "get_index0 JUndefined = Inl TypeError"
| "get_index0 JNull = Inl TypeError"
| "get_index0 (JArr xs) = Inr (case xs of [] \<Rightarrow> JUndefined | x # _ \<Rightarrow> x)"
| "get_index0 (JStr s) = Inr (case s of [] \<Rightarrow> JUndefined | c # _ \<Rightarrow> JStr [c])"
| "get_index0 (JObj ps) = Inr (case map_of ps ''0'' of None \<Rightarrow> JUndefined | Some v \<Rightarrow> v)"
| "get_index0 v = Inr JUndefined"

definition bind_fault :: "fault + 'a \<Rightarrow> ('a \<Rightarrow> fault + 'b) \<Rightarrow> fault + 'b" where
  "bind_fault r k = (case r of Inl e \<Rightarrow> Inl e | Inr v \<Rightarrow> k v)"

text \<open>\<open>v?.rest\<close>: the rest of the chain is skipped, with value \<open>undefined\<close>, when \<open>v\<close> is
  \<open>undefined\<close> or \<open>null\<close>.\<close>

definition opt_chain :: "jsval \<Rightarrow> (jsval \<Rightarrow> fault + jsval) \<Rightarrow> fault + jsval" where
  "opt_chain v k = (if nullish v then Inr JUndefined else k v)"

text \<open>\<open>a || b\<close> on conditions: \<open>b\<close> is evaluated only when \<open>a\<close> is false.\<close>

definition or_else :: "bool \<Rightarrow> (fault + bool) \<Rightarrow> fault + bool" where
  "or_else a b = (if a then Inr True else b)"

definition is_array :: "jsval \<Rightarrow> bool" where
  "is_array v = (case v of JArr xs \<Rightarrow> True | _ \<Rightarrow> False)"

definition elements :: "jsval \<Rightarrow> jsval list" where
  "elements v = (case v of JArr xs \<Rightarrow> xs | _ \<Rightarrow> [])"

definition array_length :: "jsval \<Rightarrow> nat" where
  "array_length v = length (elements v)"

definition is_number :: "jsval \<Rightarrow> bool" where
  "is_number v = (case v of JNum n \<Rightarrow> True | _ \<Rightarrow> False)"

text \<open>\<open>Array.prototype.find\<close>: the first element whose test is true, \<open>undefined\<close> when
  there is none; a test that throws ends the search.\<close>

fun find_js :: "(jsval \<Rightarrow> fault + bool) \<Rightarrow> jsval list \<Rightarrow> fault + jsval" where
  "find_js p [] = Inr JUndefined"
| "find_js p (x # xs) =
     (case p x of Inl e \<Rightarrow> Inl e | Inr b \<Rightarrow> if b then Inr x else find_js p xs)"

text \<open>\<open>v.find(p)\<close>: only an array has a callable \<open>find\<close>; on any other value the call
  throws (\<open>undefined\<close> and \<open>null\<close> have no properties, and a document holds no functions).\<close>

definition call_find :: "jsval \<Rightarrow> (jsval \<Rightarrow> fault + bool) \<Rightarrow> fault + jsval" where
  "call_find v p = (case v of JArr xs \<Rightarrow> find_js p xs | _ \<Rightarrow> Inl TypeError)"

text \<open>The comparisons of numbers: every comparison with \<open>NaN\<close> is false.\<close>

fun num_less :: "jsnum \<Rightarrow> jsnum \<Rightarrow> bool" where
  "num_less NaN b = False"
| "num_less a NaN = False"
| "num_less PosInf b = False"
| "num_less NegInf b = (b \<noteq> NegInf)"
| "num_less (Fin x) PosInf = True"
| "num_less (Fin x) NegInf = False"
| "num_less (Fin x) (Fin y) = (x < y)"

definition num_le :: "jsnum \<Rightarrow> jsnum \<Rightarrow> bool" where
  "num_le a b = (a \<noteq> NaN \<and> b \<noteq> NaN \<and> \<not> num_less b a)"

definition the_number :: "jsval \<Rightarrow> jsnum" where
  "the_number v = (case v of JNum n \<Rightarrow> n | _ \<Rightarrow> NaN)"

subsection \<open>Conversion to a string\<close>

fun join_comma :: "(fault + string) list \<Rightarrow> fault + string" where
  "join_comma [] = Inr []"
| "join_comma [r] = r"
| "join_comma (r # rs) =
     (case r of Inl e \<Rightarrow> Inl e
      | Inr a \<Rightarrow> (case join_comma rs of Inl e \<Rightarrow> Inl e | Inr b \<Rightarrow> Inr (a @ '','' @ b)))"

text \<open>
  \<open>ToString\<close>, as the regular expression test and the template literals apply it. An array
  joins its elements with commas (\<open>undefined\<close> and \<open>null\<close> elements give the empty string).
  A record is \<open>[object Object]\<close>, unless it has an own property \<open>toString\<close>: that property
  holds data, not a function, and the conversion throws.
\<close>

fun to_string :: "numfmt \<Rightarrow> jsval \<Rightarrow> fault + string" where
  "to_string nts JUndefined = Inr ''undefined''"
| "to_string nts JNull = Inr ''null''"
| "to_string nts (JBool b) = Inr (if b then ''true'' else ''false'')"
| "to_string nts (JNum n) = Inr (nts n)"
| "to_string nts (JStr s) = Inr s"
| "to_string nts (JArr xs) =
     join_comma (map (\<lambda>x. if nullish x then Inr [] else to_string nts x) xs)"
| "to_string nts (JObj ps) =
     (if map_of ps ''toString'' = None then Inr ''[object Object]'' else Inl TypeError)"

text \<open>The decimal digits of an array index, as a template literal prints it.\<close>

fun show_nat :: "nat \<Rightarrow> string" where
  "show_nat n =
     (if n < 10 then [char_of (48 + n)]
      else show_nat (n div 10) @ [char_of (48 + n mod 10)])"

declare show_nat.simps [simp del]

subsection \<open>The regular expression of the tax identifier\<close>

text \<open>
  \<open>/^\d{7}[A-Z]\/[A-Z]\/[A-Z]\/\d{3}$/\<close>: a sequence of character classes, each repeated a
  fixed number of times, anchored at both ends of the input. The expression has no flags:
  \<open>$\<close> is the end of the input, \<open>\d\<close> is an ASCII digit, and \<open>test\<close> keeps no position
  between calls.
\<close>

datatype atom = Digit | Upper | Lit char

type_synonym regex = "(atom \<times> nat) list"

fun atom_ok :: "atom \<Rightarrow> char \<Rightarrow> bool" where
  "atom_ok Digit c = (48 \<le> (of_char c :: nat) \<and> (of_char c :: nat) \<le> 57)"
| "atom_ok Upper c = (65 \<le> (of_char c :: nat) \<and> (of_char c :: nat) \<le> 90)"
| "atom_ok (Lit d) c = (c = d)"

fun matches :: "regex \<Rightarrow> string \<Rightarrow> bool" where
  "matches [] s = (s = [])"
| "matches ((a, 0) # r) s = matches r s"
| "matches ((a, Suc n) # r) [] = False"
| "matches ((a, Suc n) # r) (c # s) = (atom_ok a c \<and> matches ((a, n) # r) s)"

definition taxIdRegex :: regex where
  "taxIdRegex =
     [(Digit, 7), (Upper, 1), (Lit (CHR ''/''), 1), (Upper, 1), (Lit (CHR ''/''), 1),
      (Upper, 1), (Lit (CHR ''/''), 1), (Digit, 3)]"

definition regex_test :: "numfmt \<Rightarrow> regex \<Rightarrow> jsval \<Rightarrow> fault + bool" where
  "regex_test nts re v = bind_fault (to_string nts v) (\<lambda>str. Inr (matches re str))"

section \<open>The validator\<close>

text \<open>
  The object \<open>TEIFValidator\<close>: the document under validation and the error accumulator.
  (The field \<open>taxIdRegex\<close> is the constant above; the field \<open>knownCodes\<close> is never read.)
  The methods' names are the source's without their leading underscore. A method is a
  function of the validator's state; where it reads \<open>this.invoice\<close> it reads the document
  of the state at its entry, since no statement assigns to the document.
\<close>

record validator =
  invoice :: jsval
  errors :: "string list"

text \<open>The result of \<open>validate\<close>: the fields \<open>isValid\<close> and \<open>errors\<close> (here
  \<open>rep_errors\<close>).\<close>

record report =
  isValid :: bool
  rep_errors :: "string list"

text \<open>A method either completes or throws; in both cases it leaves the validator in some
  state.\<close>

datatype completion = Normal | Thrown fault

type_synonym stmt = "validator \<Rightarrow> completion \<times> validator"

definition skip :: stmt where
  "skip s = (Normal, s)"

definition seq :: "stmt \<Rightarrow> stmt \<Rightarrow> stmt" where
  "seq a b s = (case a s of (Normal, s') \<Rightarrow> b s' | (Thrown e, s') \<Rightarrow> (Thrown e, s'))"

text \<open>Evaluate an expression, then go on with its value; a throwing expression ends the
  method.\<close>

definition eval_then :: "fault + 'a \<Rightarrow> ('a \<Rightarrow> stmt) \<Rightarrow> stmt" where
  "eval_then r k s = (case r of Inl e \<Rightarrow> (Thrown e, s) | Inr v \<Rightarrow> k v s)"

definition if_then :: "bool \<Rightarrow> stmt \<Rightarrow> stmt" where
  "if_then c a = (if c then a else skip)"

definition addError :: "string \<Rightarrow> stmt" where
  "addError message s = (Normal, s\<lparr>errors := errors s @ [message]\<rparr>)"

subsection \<open>Root\<close>

definition validateRoot :: stmt where
  "validateRoot s =
     seq (eval_then (get_member (invoice s) ''version'') (\<lambda>v.
            if_then (v \<noteq> JStr ''2.0'') (addError ''Root: TEIF version must be '2.0'.'')))
         (eval_then (get_member (invoice s) ''controlingAgency'') (\<lambda>a.
            if_then (a \<noteq> JStr ''TTN'') (addError ''Root: 'controlingAgency' must be 'TTN'.'')))
       s"

subsection \<open>Header\<close>

definition sender_format_msg :: "string \<Rightarrow> string" where
  "sender_format_msg v =
     ''Header: Sender Tax ID '' @ [CHR 0x27] @ v @ [CHR 0x27] @ '' has an invalid format.''"

definition receiver_format_msg :: "string \<Rightarrow> string" where
  "receiver_format_msg v =
     ''Header: Receiver Tax ID '' @ [CHR 0x27] @ v @ [CHR 0x27] @ '' has an invalid format.''"

definition validateHeader :: "numfmt \<Rightarrow> stmt" where
  "validateHeader nts s =
     eval_then (get_member (invoice s) ''InvoiceHeader'') (\<lambda>header.
       if \<not> truthy header then addError ''Structure: 'InvoiceHeader' object is missing.''
       else
         seq (eval_then (get_member header ''MessageSenderIdentifier'') (\<lambda>sender.
                eval_then (or_else (\<not> truthy sender)
                    (bind_fault (get_member sender ''value'') (\<lambda>v. Inr (\<not> truthy v)))) (\<lambda>missing.
                  if missing
                  then addError ''Header: Sender 'MessageSenderIdentifier' is missing or empty.''
                  else eval_then (bind_fault (get_member sender ''value'')
                                    (regex_test nts taxIdRegex)) (\<lambda>ok.
                    if \<not> ok
                    then eval_then (bind_fault (get_member sender ''value'') (to_string nts))
                           (\<lambda>v. addError (sender_format_msg v))
                    else skip))))
             (eval_then (get_member header ''MessageReceiverIdentifier'') (\<lambda>receiver.
                eval_then (or_else (\<not> truthy receiver)
                    (bind_fault (get_member receiver ''value'') (\<lambda>v. Inr (\<not> truthy v)))) (\<lambda>missing.
                  if missing
                  then addError ''Header: Receiver 'MessageReceiverIdentifier' is missing or empty.''
                  else eval_then (bind_fault (get_member receiver ''value'')
                                    (regex_test nts taxIdRegex)) (\<lambda>ok.
                    if \<not> ok
                    then eval_then (bind_fault (get_member receiver ''value'') (to_string nts))
                           (\<lambda>v. addError (receiver_format_msg v))
                    else skip)))))
       s"

subsection \<open>Document identification and dates\<close>

definition validateBgmAndDtm :: stmt where
  "validateBgmAndDtm s =
     seq (eval_then
            (bind_fault (get_member (invoice s) ''Bgm'') (\<lambda>bgm.
               or_else (\<not> truthy bgm)
                 (bind_fault (get_member (invoice s) ''Bgm'') (\<lambda>bgm.
                    bind_fault (get_member bgm ''DocumentIdentifier'') (\<lambda>d. Inr (\<not> truthy d))))))
            (\<lambda>missing. if_then missing
               (addError ''Body: 'Bgm.DocumentIdentifier' (Invoice ID) is missing.'')))
    (seq (eval_then
            (bind_fault (get_member (invoice s) ''Bgm'') (\<lambda>bgm.
               opt_chain bgm (\<lambda>bgm.
                 bind_fault (get_member bgm ''DocumentType'') (\<lambda>dt.
                   opt_chain dt (\<lambda>dt. get_member dt ''code'')))))
            (\<lambda>code. if_then (code \<noteq> JStr ''I-11'')
               (addError ''Body: 'Bgm.DocumentType.code' must be 'I-11' for an invoice.'')))
         (eval_then
            (bind_fault (get_member (invoice s) ''Dtm'') (\<lambda>dtm.
               opt_chain dtm (\<lambda>dtm.
                 call_find dtm (\<lambda>d.
                   bind_fault (get_member d ''functionCode'') (\<lambda>c. Inr (c = JStr ''I-31''))))))
            (\<lambda>issueDate. if_then (\<not> truthy issueDate)
               (addError
                  ''Body: 'Dtm' entry with functionCode 'I-31' (Issue Date) is missing.''))))
       s"

subsection \<open>Trading partners\<close>

text \<open>\<open>p.Nad?.[field]?.value\<close>\<close>

definition nad_value :: "jsval \<Rightarrow> string \<Rightarrow> fault + jsval" where
  "nad_value p field =
     bind_fault (get_member p ''Nad'') (\<lambda>nad.
       opt_chain nad (\<lambda>nad.
         bind_fault (get_member nad field) (\<lambda>f.
           opt_chain f (\<lambda>f. get_member f ''value''))))"

text \<open>\<open>this.invoice.PartnerSection?.PartnerDetails\<close>\<close>

definition partner_details :: "jsval \<Rightarrow> fault + jsval" where
  "partner_details doc =
     bind_fault (get_member doc ''PartnerSection'') (\<lambda>ps.
       opt_chain ps (\<lambda>ps. get_member ps ''PartnerDetails''))"

definition validatePartners :: stmt where
  "validatePartners s =
     eval_then (partner_details (invoice s))
       (\<lambda>partners.
          if \<not> truthy partners \<or> \<not> is_array partners \<or> array_length partners < 2
          then addError
            ''Partners: 'PartnerSection.PartnerDetails' must be an array with at least a supplier and a buyer.''
          else
            seq (eval_then
                   (call_find partners (\<lambda>p.
                      bind_fault (get_member p ''functionCode'') (\<lambda>c. Inr (c = JStr ''I-62''))))
                   (\<lambda>supplier.
                      if \<not> truthy supplier
                      then addError ''Partners: A supplier with functionCode 'I-62' is required.''
                      else eval_then
                        (bind_fault (nad_value supplier ''PartnerIdentifier'') (\<lambda>i.
                           or_else (\<not> truthy i)
                             (bind_fault (nad_value supplier ''PartnerNom'') (\<lambda>n.
                                Inr (\<not> truthy n)))))
                        (\<lambda>missing. if_then missing
                           (addError
                              ''Partners: Supplier is missing 'PartnerIdentifier' or 'PartnerNom'.''))))
                (eval_then
                   (call_find partners (\<lambda>p.
                      bind_fault (get_member p ''functionCode'') (\<lambda>c. Inr (c = JStr ''I-61''))))
                   (\<lambda>buyer.
                      if \<not> truthy buyer
                      then addError ''Partners: A buyer with functionCode 'I-61' is required.''
                      else eval_then
                        (bind_fault (nad_value buyer ''PartnerIdentifier'') (\<lambda>i.
                           or_else (\<not> truthy i)
                             (bind_fault (nad_value buyer ''PartnerNom'') (\<lambda>n.
                                Inr (\<not> truthy n)))))
                        (\<lambda>missing. if_then missing
                           (addError
                              ''Partners: Buyer is missing 'PartnerIdentifier' or 'PartnerNom'.'')))))
       s"

subsection \<open>Line items\<close>

definition line_ident_msg :: "nat \<Rightarrow> string" where
  "line_ident_msg n = ''Line '' @ show_nat n @ '': 'ItemIdentifier' or 'Description' is missing.''"

definition line_quantity_msg :: "nat \<Rightarrow> string" where
  "line_quantity_msg n = ''Line '' @ show_nat n @ '': 'Quantity' must be a positive number.''"

definition line_price_msg :: "nat \<Rightarrow> string" where
  "line_price_msg n = ''Line '' @ show_nat n @ '': 'UnitPrice' must be a non-negative number.''"

text \<open>\<open>Array.prototype.forEach\<close>: the callback on every element in order, with its index;
  a callback that throws ends the loop.\<close>

fun forEach_from :: "nat \<Rightarrow> (jsval \<Rightarrow> nat \<Rightarrow> stmt) \<Rightarrow> jsval list \<Rightarrow> stmt" where
  "forEach_from i f [] s = (Normal, s)"
| "forEach_from i f (x # xs) s =
     (case f x i s of
        (Normal, s') \<Rightarrow> forEach_from (Suc i) f xs s'
      | (Thrown e, s') \<Rightarrow> (Thrown e, s'))"

definition forEach :: "jsval \<Rightarrow> (jsval \<Rightarrow> nat \<Rightarrow> stmt) \<Rightarrow> stmt" where
  "forEach v f = forEach_from 0 f (elements v)"

text \<open>The callback of the loop over the lines.\<close>

definition line_callback :: "jsval \<Rightarrow> nat \<Rightarrow> stmt" where
  "line_callback line index =
     seq (eval_then
            (bind_fault (get_member line ''ItemIdentifier'') (\<lambda>i.
               or_else (\<not> truthy i)
                 (bind_fault (get_member line ''Description'') (\<lambda>d. Inr (\<not> truthy d)))))
            (\<lambda>missing. if_then missing (addError (line_ident_msg (index + 1)))))
    (seq (eval_then
            (bind_fault (get_member line ''Quantity'') (\<lambda>q.
               or_else (\<not> is_number q)
                 (bind_fault (get_member line ''Quantity'') (\<lambda>q.
                    Inr (num_le (the_number q) (Fin 0))))))
            (\<lambda>bad. if_then bad (addError (line_quantity_msg (index + 1)))))
         (eval_then
            (bind_fault (get_member line ''UnitPrice'') (\<lambda>u.
               or_else (\<not> is_number u)
                 (bind_fault (get_member line ''UnitPrice'') (\<lambda>u.
                    Inr (num_less (the_number u) (Fin 0))))))
            (\<lambda>bad. if_then bad (addError (line_price_msg (index + 1))))))"

text \<open>\<open>this.invoice.LinSection?.[0]?.Lin\<close>\<close>

definition line_collection :: "jsval \<Rightarrow> fault + jsval" where
  "line_collection doc =
     bind_fault (get_member doc ''LinSection'') (\<lambda>ls.
       opt_chain ls (\<lambda>ls.
         bind_fault (get_index0 ls) (\<lambda>sec.
           opt_chain sec (\<lambda>sec. get_member sec ''Lin''))))"

definition validateLines :: stmt where
  "validateLines s =
     eval_then (line_collection (invoice s))
       (\<lambda>lines.
          if \<not> truthy lines \<or> \<not> is_array lines \<or> array_length lines = 0
          then addError
            ''Lines: 'LinSection[0].Lin' must be an array with at least one line item.''
          else forEach lines line_callback)
       s"

subsection \<open>Totals and tax\<close>

text \<open>\<open>this.invoice.InvoiceMoa?.AmountDetails\<close>\<close>

definition amount_details :: "jsval \<Rightarrow> fault + jsval" where
  "amount_details doc =
     bind_fault (get_member doc ''InvoiceMoa'') (\<lambda>moa.
       opt_chain moa (\<lambda>moa. get_member moa ''AmountDetails''))"

definition validateTotals :: stmt where
  "validateTotals s =
     eval_then (amount_details (invoice s))
       (\<lambda>amounts.
          if \<not> truthy amounts \<or> \<not> is_array amounts
          then addError ''Totals: 'InvoiceMoa.AmountDetails' array is missing.''
          else
            seq (eval_then
                   (call_find amounts (\<lambda>a.
                      bind_fault (get_member a ''amountTypeCode'') (\<lambda>c.
                        Inr (c = JStr ''I-176''))))
                   (\<lambda>totalHT. if_then (\<not> truthy totalHT)
                      (addError ''Totals: Amount with type 'I-176' (Total HT) is missing.'')))
           (seq (eval_then
                   (call_find amounts (\<lambda>a.
                      bind_fault (get_member a ''amountTypeCode'') (\<lambda>c.
                        Inr (c = JStr ''I-180''))))
                   (\<lambda>totalTTC. if_then (\<not> truthy totalTTC)
                      (addError ''Totals: Amount with type 'I-180' (Total TTC) is missing.'')))
                (eval_then (get_member (invoice s) ''InvoiceTax'') (\<lambda>taxInfo.
                   if \<not> truthy taxInfo
                   then addError ''Tax: 'InvoiceTax' object is missing.''
                   else eval_then (get_member taxInfo ''TaxTypeCode'') (\<lambda>c.
                     if_then (c \<noteq> JStr ''I-1602'')
                       (addError
                          ''Tax: 'TaxTypeCode' for main tax should be 'I-1602' (TVA).''))))))
       s"

subsection \<open>The engine\<close>

definition run_all :: "numfmt \<Rightarrow> stmt" where
  "run_all nts =
     seq validateRoot
    (seq (validateHeader nts)
    (seq validateBgmAndDtm
    (seq validatePartners
    (seq validateLines
         validateTotals))))"

text \<open>\<open>validate\<close> empties the accumulator, runs the six groups and builds the report; an
  exception of a group leaves \<open>validate\<close> with no report.\<close>

definition validate :: "numfmt \<Rightarrow> validator \<Rightarrow> (fault + report) \<times> validator" where
  "validate nts s =
     (case run_all nts (s\<lparr>errors := []\<rparr>) of
        (Normal, s') \<Rightarrow>
          (Inr \<lparr>isValid = (length (errors s') = 0), rep_errors = errors s'\<rparr>, s')
      | (Thrown e, s') \<Rightarrow> (Inl e, s'))"

text \<open>The constructor.\<close>

definition new_validator :: "jsval \<Rightarrow> validator" where
  "new_validator invoiceData = \<lparr>invoice = invoiceData, errors = []\<rparr>"

subsection \<open>The example document\<close>

definition validInvoiceData :: jsval where
  "validInvoiceData = JObj
    [(''version'', JStr ''2.0''),
     (''controlingAgency'', JStr ''TTN''),
     (''InvoiceHeader'', JObj
        [(''MessageSenderIdentifier'',
            JObj [(''type'', JStr ''I-01''), (''value'', JStr ''1234567A/B/M/000'')]),
         (''MessageReceiverIdentifier'',
            JObj [(''type'', JStr ''I-01''), (''value'', JStr ''7654321C/D/N/000'')])]),
     (''Bgm'', JObj
        [(''DocumentIdentifier'', JStr ''INV-2025-001''),
         (''DocumentType'', JObj [(''code'', JStr ''I-11''), (''name'', JStr ''Facture'')])]),
     (''Dtm'', JArr
        [JObj [(''functionCode'', JStr ''I-31''), (''format'', JStr ''DDMMYY''),
               (''DateText'', JStr ''190825'')]]),
     (''PartnerSection'', JObj
        [(''PartnerDetails'', JArr
           [JObj [(''functionCode'', JStr ''I-62''),
                  (''Nad'', JObj
                     [(''PartnerIdentifier'',
                         JObj [(''type'', JStr ''I-01''), (''value'', JStr ''1234567A/B/M/000'')]),
                      (''PartnerNom'', JObj [(''value'', JStr ''Tech Solutions SARL'')]),
                      (''PartnerAdresses'', JArr
                         [JObj [(''CityName'', JStr ''Tunis''), (''Country'', JStr ''TN'')]])])],
            JObj [(''functionCode'', JStr ''I-61''),
                  (''Nad'', JObj
                     [(''PartnerIdentifier'',
                         JObj [(''type'', JStr ''I-01''), (''value'', JStr ''7654321C/D/N/000'')]),
                      (''PartnerNom'', JObj [(''value'', JStr ''Alpha Distribution SA'')]),
                      (''PartnerAdresses'', JArr
                         [JObj [(''CityName'', JStr ''Sfax''), (''Country'', JStr ''TN'')]])])]])]),
     (''LinSection'', JArr
        [JObj [(''Lin'', JArr
           [JObj [(''ItemIdentifier'', JStr ''PRD-001''), (''Description'', JStr ''Laptop''),
                  (''Quantity'', JNum (Fin 2)), (''UnitPrice'', JNum (Fin 1200)),
                  (''LineTotal'', JNum (Fin 2400))],
            JObj [(''ItemIdentifier'', JStr ''PRD-002''), (''Description'', JStr ''Printer''),
                  (''Quantity'', JNum (Fin 1)), (''UnitPrice'', JNum (Fin 600)),
                  (''LineTotal'', JNum (Fin 600))]])]]),
     (''InvoiceMoa'', JObj
        [(''AmountDetails'', JArr
           [JObj [(''amountTypeCode'', JStr ''I-176''), (''Amount'', JNum (Fin 3000))],
            JObj [(''amountTypeCode'', JStr ''I-180''), (''Amount'', JNum (Fin 3570))]])]),
     (''InvoiceTax'', JObj
        [(''TaxTypeCode'', JStr ''I-1602''),
         (''TaxRate'', JNum (Fin 19)),
         (''TaxAmount'', JNum (Fin 570))])]"

subsection \<open>Variants of the example document\<close>

text \<open>\<open>prop_of v k\<close> is the value read at the property \<open>k\<close> of \<open>v\<close>, and \<open>index0_of v\<close>
  the value read at its index 0; both are \<open>undefined\<close> where the read would throw.\<close>

definition prop_of :: "jsval \<Rightarrow> string \<Rightarrow> jsval" where
  "prop_of v k = (case get_member v k of Inl e \<Rightarrow> JUndefined | Inr x \<Rightarrow> x)"

definition index0_of :: "jsval \<Rightarrow> jsval" where
  "index0_of v = (case get_index0 v of Inl e \<Rightarrow> JUndefined | Inr x \<Rightarrow> x)"

text \<open>The example with the sender's identifier \<open>BADID\<close>.\<close>

definition badSenderData :: jsval where
  "badSenderData = JObj
    [(''version'', JStr ''2.0''),
     (''controlingAgency'', JStr ''TTN''),
     (''InvoiceHeader'', JObj
        [(''MessageSenderIdentifier'',
            JObj [(''type'', JStr ''I-01''), (''value'', JStr ''BADID'')]),
         (''MessageReceiverIdentifier'',
            JObj [(''type'', JStr ''I-01''), (''value'', JStr ''7654321C/D/N/000'')])]),
     (''Bgm'', prop_of validInvoiceData ''Bgm''),
     (''Dtm'', prop_of validInvoiceData ''Dtm''),
     (''PartnerSection'', prop_of validInvoiceData ''PartnerSection''),
     (''LinSection'', prop_of validInvoiceData ''LinSection''),
     (''InvoiceMoa'', prop_of validInvoiceData ''InvoiceMoa''),
     (''InvoiceTax'', prop_of validInvoiceData ''InvoiceTax'')]"

text \<open>The example with the supplier as the only partner.\<close>

definition supplierOnlyData :: jsval where
  "supplierOnlyData = JObj
    [(''version'', JStr ''2.0''),
     (''controlingAgency'', JStr ''TTN''),
     (''InvoiceHeader'', prop_of validInvoiceData ''InvoiceHeader''),
     (''Bgm'', prop_of validInvoiceData ''Bgm''),
     (''Dtm'', prop_of validInvoiceData ''Dtm''),
     (''PartnerSection'', JObj
        [(''PartnerDetails'', JArr
           [JObj [(''functionCode'', JStr ''I-62''),
                  (''Nad'', JObj
                     [(''PartnerIdentifier'',
                         JObj [(''type'', JStr ''I-01''), (''value'', JStr ''1234567A/B/M/000'')]),
                      (''PartnerNom'', JObj [(''value'', JStr ''Tech Solutions SARL'')]),
                      (''PartnerAdresses'', JArr
                         [JObj [(''CityName'', JStr ''Tunis''), (''Country'', JStr ''TN'')]])])]])]),
     (''LinSection'', prop_of validInvoiceData ''LinSection''),
     (''InvoiceMoa'', prop_of validInvoiceData ''InvoiceMoa''),
     (''InvoiceTax'', prop_of validInvoiceData ''InvoiceTax'')]"

text \<open>The example with the unit price \<open>-5\<close> in its second line.\<close>

definition negativePriceData :: jsval where
  "negativePriceData = JObj
    [(''version'', JStr ''2.0''),
     (''controlingAgency'', JStr ''TTN''),
     (''InvoiceHeader'', JObj
        [(''MessageSenderIdentifier'',
            JObj [(''type'', JStr ''I-01''), (''value'', JStr ''1234567A/B/M/000'')]),
         (''MessageReceiverIdentifier'',
            JObj [(''type'', JStr ''I-01''), (''value'', JStr ''7654321C/D/N/000'')])]),
     (''Bgm'', JObj
        [(''DocumentIdentifier'', JStr ''INV-2025-001''),
         (''DocumentType'', JObj [(''code'', JStr ''I-11''), (''name'', JStr ''Facture'')])]),
     (''Dtm'', JArr
        [JObj [(''functionCode'', JStr ''I-31''), (''format'', JStr ''DDMMYY''),
               (''DateText'', JStr ''190825'')]]),
     (''PartnerSection'', prop_of validInvoiceData ''PartnerSection''),
     (''LinSection'', JArr
        [JObj [(''Lin'', JArr
           [JObj [(''ItemIdentifier'', JStr ''PRD-001''), (''Description'', JStr ''Laptop''),
                  (''Quantity'', JNum (Fin 2)), (''UnitPrice'', JNum (Fin 1200)),
                  (''LineTotal'', JNum (Fin 2400))],
            JObj [(''ItemIdentifier'', JStr ''PRD-002''), (''Description'', JStr ''Printer''),
                  (''Quantity'', JNum (Fin 1)), (''UnitPrice'', JNum (Fin (- 5))),
                  (''LineTotal'', JNum (Fin 600))]])]]),
     (''InvoiceMoa'', prop_of validInvoiceData ''InvoiceMoa''),
     (''InvoiceTax'', prop_of validInvoiceData ''InvoiceTax'')]"

text \<open>A document whose only line has \<open>NaN\<close> as quantity and as unit price.\<close>

definition nanLinesData :: jsval where
  "nanLinesData = JObj
    [(''LinSection'', JArr
        [JObj [(''Lin'', JArr
           [JObj [(''ItemIdentifier'', JStr ''PRD-001''), (''Description'', JStr ''Laptop''),
                  (''Quantity'', JNum NaN), (''UnitPrice'', JNum NaN)]])]])]"

text \<open>The example with a record holding its own \<open>toString\<close> entry as the sender's
  identifier value, and the receiver's identifier \<open>BADID\<close>.\<close>

definition toStringSenderData :: jsval where
  "toStringSenderData = JObj
    [(''version'', JStr ''2.0''),
     (''controlingAgency'', JStr ''TTN''),
     (''InvoiceHeader'', JObj
        [(''MessageSenderIdentifier'',
            JObj [(''type'', JStr ''I-01''), (''value'', JObj [(''toString'', JNum (Fin 1))])]),
         (''MessageReceiverIdentifier'',
            JObj [(''type'', JStr ''I-01''), (''value'', JStr ''BADID'')])]),
     (''Bgm'', prop_of validInvoiceData ''Bgm''),
     (''Dtm'', prop_of validInvoiceData ''Dtm''),
     (''PartnerSection'', prop_of validInvoiceData ''PartnerSection''),
     (''LinSection'', prop_of validInvoiceData ''LinSection''),
     (''InvoiceMoa'', prop_of validInvoiceData ''InvoiceMoa''),
     (''InvoiceTax'', prop_of validInvoiceData ''InvoiceTax'')]"

text \<open>The example with \<open>null\<close> as its first line and the unit price \<open>-5\<close> in its second
  line.\<close>

definition nullLineData :: jsval where
  "nullLineData = JObj
    [(''version'', JStr ''2.0''),
     (''controlingAgency'', JStr ''TTN''),
     (''InvoiceHeader'', prop_of validInvoiceData ''InvoiceHeader''),
     (''Bgm'', prop_of validInvoiceData ''Bgm''),
     (''Dtm'', prop_of validInvoiceData ''Dtm''),
     (''PartnerSection'', prop_of validInvoiceData ''PartnerSection''),
     (''LinSection'', JArr
        [JObj [(''Lin'', JArr
           [JNull,
            JObj [(''ItemIdentifier'', JStr ''PRD-002''), (''Description'', JStr ''Printer''),
                  (''Quantity'', JNum (Fin 1)), (''UnitPrice'', JNum (Fin (- 5))),
                  (''LineTotal'', JNum (Fin 600))]])]]),
     (''InvoiceMoa'', prop_of validInvoiceData ''InvoiceMoa''),
     (''InvoiceTax'', prop_of validInvoiceData ''InvoiceTax'')]"

section \<open>Notions used in the statements\<close>

text \<open>The messages a method has added to the accumulator, between the state before and
  the state after.\<close>

definition recorded :: "validator \<Rightarrow> validator \<Rightarrow> string list" where
  "recorded s s' = drop (length (errors s)) (errors s')"


text \<open>A value whose conversion to a string does not throw.\<close>

definition converts :: "numfmt \<Rightarrow> jsval \<Rightarrow> bool" where
  "converts nts v = (\<not> isl (to_string nts v))"


subsection \<open>The format of a tax identifier, in the words of the specification\<close>

text \<open>Seven digits, one uppercase letter, a slash, one uppercase letter, a slash, one
  uppercase letter, a slash, three digits.\<close>

definition is_digit :: "char \<Rightarrow> bool" where
  "is_digit c = (c \<in> set ''0123456789'')"

definition is_upper :: "char \<Rightarrow> bool" where
  "is_upper c = (c \<in> set ''ABCDEFGHIJKLMNOPQRSTUVWXYZ'')"

definition tax_id_format :: "string \<Rightarrow> bool" where
  "tax_id_format v =
     (length v = 16
      \<and> list_all is_digit (take 7 v)
      \<and> is_upper (v ! 7) \<and> v ! 8 = CHR ''/''
      \<and> is_upper (v ! 9) \<and> v ! 10 = CHR ''/''
      \<and> is_upper (v ! 11) \<and> v ! 12 = CHR ''/''
      \<and> list_all is_digit (drop 13 v))"

subsection \<open>The violations of a line, in the words of the specification\<close>

text \<open>(a) the item identifier or the description is missing, (b) the quantity is not a
  number or is not positive, (c) the unit price is not a number or is negative; each
  message names the position of the line.\<close>

definition missing_ident :: "jsval \<Rightarrow> bool" where
  "missing_ident line =
     (\<not> truthy (prop_of line ''ItemIdentifier'') \<or> \<not> truthy (prop_of line ''Description''))"

definition bad_quantity :: "jsval \<Rightarrow> bool" where
  "bad_quantity line =
     (case prop_of line ''Quantity'' of JNum n \<Rightarrow> num_le n (Fin 0) | _ \<Rightarrow> True)"

definition bad_price :: "jsval \<Rightarrow> bool" where
  "bad_price line =
     (case prop_of line ''UnitPrice'' of JNum n \<Rightarrow> num_less n (Fin 0) | _ \<Rightarrow> True)"

definition line_violations :: "nat \<Rightarrow> jsval \<Rightarrow> string list" where
  "line_violations n line =
     (if missing_ident line then [line_ident_msg n] else [])
   @ (if bad_quantity line then [line_quantity_msg n] else [])
   @ (if bad_price line then [line_price_msg n] else [])"

fun all_violations :: "nat \<Rightarrow> jsval list \<Rightarrow> string list" where
  "all_violations n [] = []"
| "all_violations n (l # ls) = line_violations n l @ all_violations (Suc n) ls"

subsection \<open>The two identifier checks of the header\<close>

text \<open>The header method runs the same check on the sender and on the receiver;
  \<open>identifier_check\<close> is that check with the property and the messages as parameters
  (lemma \<open>validateHeader_eq\<close> below). \<open>identifier_msgs\<close> lists what the check records and
  \<open>identifier_faults\<close> says when it throws.\<close>

definition identifier_check ::
  "numfmt \<Rightarrow> jsval \<Rightarrow> string \<Rightarrow> string \<Rightarrow> (string \<Rightarrow> string) \<Rightarrow> stmt" where
  "identifier_check nts header field missing_msg format_msg =
     eval_then (get_member header field) (\<lambda>party.
       eval_then (or_else (\<not> truthy party)
           (bind_fault (get_member party ''value'') (\<lambda>v. Inr (\<not> truthy v)))) (\<lambda>missing.
         if missing
         then addError missing_msg
         else eval_then (bind_fault (get_member party ''value'')
                           (regex_test nts taxIdRegex)) (\<lambda>ok.
           if \<not> ok
           then eval_then (bind_fault (get_member party ''value'') (to_string nts))
                  (\<lambda>v. addError (format_msg v))
           else skip)))"

definition identifier_msgs ::
  "numfmt \<Rightarrow> jsval \<Rightarrow> string \<Rightarrow> string \<Rightarrow> (string \<Rightarrow> string) \<Rightarrow> string list" where
  "identifier_msgs nts header field missing_msg format_msg =
     (let x = prop_of (prop_of header field) ''value'' in
      if \<not> truthy (prop_of header field) \<or> \<not> truthy x then [missing_msg]
      else case to_string nts x of
             Inl e \<Rightarrow> []
           | Inr v \<Rightarrow> if matches taxIdRegex v then [] else [format_msg v])"

definition identifier_faults :: "numfmt \<Rightarrow> jsval \<Rightarrow> string \<Rightarrow> bool" where
  "identifier_faults nts header field =
     (truthy (prop_of header field) \<and> truthy (prop_of (prop_of header field) ''value'')
      \<and> isl (to_string nts (prop_of (prop_of header field) ''value'')))"

subsection \<open>Predicates on runs\<close>

text \<open>A run that only appends messages satisfying \<open>P\<close>; a message that starts with the
  tag of a group; a run that completes.\<close>

definition adds :: "(string \<Rightarrow> bool) \<Rightarrow> validator \<Rightarrow> completion \<times> validator \<Rightarrow> bool" where
  "adds P s r = (\<exists>es. errors (snd r) = errors s @ es \<and> list_all P es)"

definition from_group :: "string \<Rightarrow> string \<Rightarrow> bool" where
  "from_group tag m = (take (length tag) m = tag)"


text \<open>A group that, run on the document \<open>D\<close> with an empty accumulator, completes and
  records nothing; the result of a run when \<open>es\<close> is put in front of the accumulator.\<close>

definition silent :: "stmt \<Rightarrow> jsval \<Rightarrow> bool" where
  "silent g D = (g \<lparr>invoice = D, errors = []\<rparr> = (Normal, \<lparr>invoice = D, errors = []\<rparr>))"

definition shifted :: "string list \<Rightarrow> completion \<times> validator \<Rightarrow> completion \<times> validator" where
  "shifted es r = (fst r, (snd r)\<lparr>errors := es @ errors (snd r)\<rparr>)"

text \<open>The number that a string of decimal digits denotes.\<close>

definition read_nat :: "string \<Rightarrow> nat" where
  "read_nat cs = foldl (\<lambda>acc c. 10 * acc + (of_char c - 48)) 0 cs"

section \<open>Properties\<close>

subsection \<open>The document is only read\<close>

lemma inv_skip: "invoice (snd (skip s)) = invoice s"
  by (simp add: skip_def)

lemma inv_addError: "invoice (snd (addError m s)) = invoice s"
  by (simp add: addError_def)

lemma inv_seq:
  assumes "\<And>t. invoice (snd (a t)) = invoice t" and "\<And>t. invoice (snd (b t)) = invoice t"
  shows "invoice (snd (seq a b s)) = invoice s"
proof (cases "a s")
  case (Pair c s')
  with assms(1) [of s] have "invoice s' = invoice s" by simp
  with Pair assms(2) [of s'] show ?thesis
    by (cases c) (simp_all add: seq_def)
qed

lemma inv_eval_then:
  assumes "\<And>v t. invoice (snd (k v t)) = invoice t"
  shows "invoice (snd (eval_then r k s)) = invoice s"
  using assms by (cases r) (simp_all add: eval_then_def)

lemma inv_if_then:
  assumes "\<And>t. invoice (snd (a t)) = invoice t"
  shows "invoice (snd (if_then c a s)) = invoice s"
  using assms by (simp add: if_then_def skip_def)

lemma inv_if:
  assumes "\<And>t. invoice (snd (a t)) = invoice t" and "\<And>t. invoice (snd (b t)) = invoice t"
  shows "invoice (snd ((if c then a else b) s)) = invoice s"
  using assms by simp

lemma inv_forEach_from:
  assumes "\<And>x i t. invoice (snd (f x i t)) = invoice t"
  shows "invoice (snd (forEach_from i f xs s)) = invoice s"
proof (induction xs arbitrary: i s)
  case Nil
  show ?case by simp
next
  case (Cons x xs)
  show ?case
  proof (cases "f x i s")
    case (Pair c s')
    with assms [of x i s] have "invoice s' = invoice s" by simp
    with Pair Cons.IH [of "Suc i" s'] show ?thesis
      by (cases c) simp_all
  qed
qed

lemmas inv_intros = inv_skip inv_addError inv_seq inv_eval_then inv_if_then inv_if

lemma inv_validateRoot: "invoice (snd (validateRoot s)) = invoice s"
  unfolding validateRoot_def by (intro inv_intros)

lemma inv_validateHeader: "invoice (snd (validateHeader nts s)) = invoice s"
  unfolding validateHeader_def by (intro inv_intros)

lemma inv_validateBgmAndDtm: "invoice (snd (validateBgmAndDtm s)) = invoice s"
  unfolding validateBgmAndDtm_def by (intro inv_intros)

lemma inv_validatePartners: "invoice (snd (validatePartners s)) = invoice s"
  unfolding validatePartners_def by (intro inv_intros)

lemma inv_line_callback: "invoice (snd (line_callback l i s)) = invoice s"
  unfolding line_callback_def by (intro inv_intros)

lemma inv_validateLines: "invoice (snd (validateLines s)) = invoice s"
  unfolding validateLines_def forEach_def by (intro inv_intros inv_forEach_from inv_line_callback)

lemma inv_validateTotals: "invoice (snd (validateTotals s)) = invoice s"
  unfolding validateTotals_def by (intro inv_intros)

lemma inv_run_all: "invoice (snd (run_all nts s)) = invoice s"
  unfolding run_all_def
  by (intro inv_seq inv_validateRoot inv_validateHeader inv_validateBgmAndDtm
      inv_validatePartners inv_validateLines inv_validateTotals)

lemma inv_validate: "invoice (snd (validate nts s)) = invoice s"
proof (cases "run_all nts (s\<lparr>errors := []\<rparr>)")
  case (Pair c s')
  with inv_run_all [of nts "s\<lparr>errors := []\<rparr>"] have "invoice s' = invoice s" by simp
  with Pair show ?thesis by (cases c) (simp_all add: validate_def)
qed

lemma validate_reset: "validate nts (s\<lparr>errors := es\<rparr>) = validate nts s"
  by (simp add: validate_def)

lemma validate_same_state:
  "snd (validate nts s) = s\<lparr>errors := errors (snd (validate nts s))\<rparr>"
  using inv_validate [of nts s] by (cases s, cases "snd (validate nts s)") simp

text \<open>
  Claim C9. \<open>validate\<close> never changes the document: the validator holds the same document
  after one call, and after any number of calls.
\<close>

theorem C9_document_unchanged:
  "invoice (snd (validate nts s)) = invoice s
   \<and> invoice (((\<lambda>t. snd (validate nts t)) ^^ n) s) = invoice s"
proof
  show "invoice (snd (validate nts s)) = invoice s" by (rule inv_validate)
  show "invoice (((\<lambda>t. snd (validate nts t)) ^^ n) s) = invoice s"
    by (induction n) (simp_all add: inv_validate)
qed

text \<open>
  Claim C5. A second call of \<open>validate\<close> on the same validator gives what the first call
  gave: the same report with the same messages in the same order (or the same exception),
  and the same final state. Nothing of the first call is left in the accumulator.
\<close>

theorem C5_validate_repeatable:
  "validate nts (snd (validate nts s)) = validate nts s"
proof -
  have "validate nts (snd (validate nts s))
      = validate nts (s\<lparr>errors := errors (snd (validate nts s))\<rparr>)"
    using validate_same_state [of nts s] by simp
  also have "\<dots> = validate nts s" by (rule validate_reset)
  finally show ?thesis .
qed

subsection \<open>The report\<close>

text \<open>
  Claim C4. In every report that \<open>validate\<close> returns, \<open>isValid\<close> is true exactly when the
  list of errors is empty.
\<close>

theorem C4_isValid_iff_no_errors:
  "fst (validate nts s) = Inr r \<Longrightarrow> isValid r \<longleftrightarrow> rep_errors r = []"
  by (auto simp: validate_def split: prod.splits completion.splits)

theorem C4_isValid_iff_no_errors_witness:
  "fst (validate (\<lambda>n. []) (new_validator validInvoiceData))
     = Inr \<lparr>isValid = True, rep_errors = []\<rparr>
   \<and> (isValid \<lparr>isValid = True, rep_errors = []\<rparr>
        \<longleftrightarrow> rep_errors \<lparr>isValid = True, rep_errors = []\<rparr> = [])"
proof -
  have run: "fst (validate (\<lambda>n. []) (new_validator validInvoiceData))
     = Inr \<lparr>isValid = True, rep_errors = []\<rparr>"
    by code_simp
  from C4_isValid_iff_no_errors [OF run] show ?thesis using run by simp
qed

text \<open>
  Claim C6. The example document of the source is valid: \<open>validate\<close> returns
  \<open>isValid = true\<close> and no error.
\<close>

theorem C6_example_is_valid:
  "fst (validate nts (new_validator validInvoiceData))
     = Inr \<lparr>isValid = True, rep_errors = []\<rparr>"
  by code_simp

subsection \<open>Reading the document\<close>

lemma get_member_eq:
  "get_member v k = (if nullish v then Inl TypeError else Inr (prop_of v k))"
  by (cases v) (simp_all add: nullish_def prop_of_def)

lemma get_member_ok: "\<not> nullish v \<Longrightarrow> get_member v k = Inr (prop_of v k)"
  by (simp add: get_member_eq)






lemma truthy_not_nullish: "truthy v \<Longrightarrow> \<not> nullish v"
  by (auto simp: nullish_def)

lemma truthy_prop_of: "truthy (prop_of p k) \<Longrightarrow> truthy p"
  by (cases p) (simp_all add: prop_of_def)








lemma recorded_append: "recorded s (s\<lparr>errors := errors s @ es\<rparr>) = es"
  by (simp add: recorded_def)

subsection \<open>Which messages a group can record\<close>

lemma adds_skip: "adds P s (skip s)"
  by (simp add: adds_def skip_def)

lemma adds_addError: "P m \<Longrightarrow> adds P s (addError m s)"
  by (simp add: adds_def addError_def)

lemma adds_seq:
  assumes a: "\<And>t. adds P t (a t)" and b: "\<And>t. adds P t (b t)"
  shows "adds P s (seq a b s)"
proof (cases "a s")
  case (Pair c s')
  from a [of s] Pair obtain es where es: "errors s' = errors s @ es" "list_all P es"
    by (auto simp: adds_def)
  show ?thesis
  proof (cases c)
    case Normal
    from b [of s'] obtain fs where "errors (snd (b s')) = errors s' @ fs" "list_all P fs"
      by (auto simp: adds_def)
    with es Pair Normal show ?thesis by (simp add: adds_def seq_def)
  next
    case (Thrown e)
    with es Pair show ?thesis by (simp add: adds_def seq_def)
  qed
qed

lemma adds_eval_then:
  assumes "\<And>v t. adds P t (k v t)"
  shows "adds P s (eval_then r k s)"
  using assms by (cases r) (simp_all add: eval_then_def adds_def)

lemma adds_if_then:
  assumes "\<And>t. adds P t (a t)"
  shows "adds P s (if_then c a s)"
  using assms by (simp add: if_then_def adds_skip)

lemma adds_if:
  assumes "\<And>t. adds P t (a t)" and "\<And>t. adds P t (b t)"
  shows "adds P s ((if c then a else b) s)"
  using assms by simp

lemma adds_forEach_from:
  assumes f: "\<And>y j t. adds P t (f y j t)"
  shows "adds P s (forEach_from i f xs s)"
proof (induction xs arbitrary: i s)
  case Nil
  show ?case by (simp add: adds_def)
next
  case (Cons x xs)
  show ?case
  proof (cases "f x i s")
    case (Pair c s')
    from f [of s x i] Pair obtain es where es: "errors s' = errors s @ es" "list_all P es"
      by (auto simp: adds_def)
    show ?thesis
    proof (cases c)
      case Normal
      from Cons.IH [of s' "Suc i"] obtain fs
        where "errors (snd (forEach_from (Suc i) f xs s')) = errors s' @ fs" "list_all P fs"
        by (auto simp: adds_def)
      with es Pair Normal show ?thesis by (simp add: adds_def)
    next
      case (Thrown e)
      with es Pair show ?thesis by (simp add: adds_def)
    qed
  qed
qed

lemmas adds_intros = adds_skip adds_addError adds_seq adds_eval_then adds_if_then adds_if

lemma adds_mono: "adds P s r \<Longrightarrow> (\<And>m. P m \<Longrightarrow> Q m) \<Longrightarrow> adds Q s r"
  unfolding adds_def by (auto simp: list_all_iff)

lemma addsD:
  "adds P s r \<Longrightarrow> r = (c, s') \<Longrightarrow> \<exists>es. errors s' = errors s @ es \<and> list_all P es"
  by (simp add: adds_def)

lemma adds_validateRoot: "adds (from_group ''Root: '') s (validateRoot s)"
  unfolding validateRoot_def by (intro adds_intros) (simp_all add: from_group_def)

lemma adds_validateHeader:
  "adds (\<lambda>m. from_group ''Structure: '' m \<or> from_group ''Header: '' m) s (validateHeader nts s)"
  unfolding validateHeader_def
  by (intro adds_intros) (simp_all add: from_group_def sender_format_msg_def receiver_format_msg_def)

lemma adds_validateBgmAndDtm: "adds (from_group ''Body: '') s (validateBgmAndDtm s)"
  unfolding validateBgmAndDtm_def by (intro adds_intros) (simp_all add: from_group_def)

lemma adds_validatePartners: "adds (from_group ''Partners: '') s (validatePartners s)"
  unfolding validatePartners_def by (intro adds_intros) (simp_all add: from_group_def)

lemma adds_line_callback: "adds (from_group ''Line '') s (line_callback l i s)"
  unfolding line_callback_def
  by (intro adds_intros)
     (simp_all add: from_group_def line_ident_msg_def line_quantity_msg_def line_price_msg_def)

lemma adds_validateLines:
  "adds (\<lambda>m. from_group ''Lines: '' m \<or> from_group ''Line '' m) s (validateLines s)"
  unfolding validateLines_def forEach_def
  by (intro adds_intros adds_forEach_from adds_mono [OF adds_line_callback])
     (simp_all add: from_group_def)

lemma adds_validateTotals:
  "adds (\<lambda>m. from_group ''Totals: '' m \<or> from_group ''Tax: '' m) s (validateTotals s)"
  unfolding validateTotals_def by (intro adds_intros) (simp_all add: from_group_def)

subsection \<open>The runs that complete\<close>

lemma seq_Normal:
  "seq a b s = (Normal, s'') \<longleftrightarrow> (\<exists>s'. a s = (Normal, s') \<and> b s' = (Normal, s''))"
  by (cases "a s") (auto simp: seq_def split: completion.splits)

lemma run_all_Normal:
  "run_all nts s0 = (Normal, s6) \<longleftrightarrow>
     (\<exists>s1 s2 s3 s4 s5.
        validateRoot s0 = (Normal, s1) \<and> validateHeader nts s1 = (Normal, s2)
        \<and> validateBgmAndDtm s2 = (Normal, s3) \<and> validatePartners s3 = (Normal, s4)
        \<and> validateLines s4 = (Normal, s5) \<and> validateTotals s5 = (Normal, s6))"
  unfolding run_all_def seq_Normal by blast

lemma validate_Inr:
  "fst (validate nts s) = Inr r \<longleftrightarrow>
     (\<exists>s'. run_all nts (s\<lparr>errors := []\<rparr>) = (Normal, s')
           \<and> r = \<lparr>isValid = (errors s' = []), rep_errors = errors s'\<rparr>)"
  by (cases "run_all nts (s\<lparr>errors := []\<rparr>)")
     (auto simp: validate_def split: completion.splits)







subsection \<open>The regular expression and the format\<close>

lemma digit_chars: "map char_of [48..<58::nat] = ''0123456789''"
  by code_simp

lemma upper_chars: "map char_of [65..<91::nat] = ''ABCDEFGHIJKLMNOPQRSTUVWXYZ''"
  by code_simp

lemma atom_ok_Digit: "atom_ok Digit c = is_digit c"
proof
  assume "atom_ok Digit c"
  then have "48 \<le> (of_char c :: nat) \<and> (of_char c :: nat) < 58" by simp
  then have "(of_char c :: nat) \<in> set [48..<58]" by (simp only: set_upt atLeastLessThan_iff)
  then have "char_of (of_char c :: nat) \<in> set (map char_of [48..<58::nat])"
    by (simp only: set_map) (rule imageI)
  then show "is_digit c" by (simp only: digit_chars is_digit_def char_of_char)
next
  assume "is_digit c"
  then show "atom_ok Digit c" by (auto simp: is_digit_def)
qed

lemma atom_ok_Upper: "atom_ok Upper c = is_upper c"
proof
  assume "atom_ok Upper c"
  then have "65 \<le> (of_char c :: nat) \<and> (of_char c :: nat) < 91" by simp
  then have "(of_char c :: nat) \<in> set [65..<91]" by (simp only: set_upt atLeastLessThan_iff)
  then have "char_of (of_char c :: nat) \<in> set (map char_of [65..<91::nat])"
    by (simp only: set_map) (rule imageI)
  then show "is_upper c" by (simp only: upper_chars is_upper_def char_of_char)
next
  assume "is_upper c"
  then show "atom_ok Upper c" by (auto simp: is_upper_def)
qed

lemma matches_rep:
  "matches ((a, n) # r) s \<longleftrightarrow>
     n \<le> length s \<and> list_all (atom_ok a) (take n s) \<and> matches r (drop n s)"
proof (induction n arbitrary: s)
  case 0
  show ?case by simp
next
  case (Suc n)
  show ?case by (cases s) (auto simp: Suc.IH)
qed

lemma matches_taxIdRegex: "matches taxIdRegex v \<longleftrightarrow> tax_id_format v"
proof (cases "length v = 16")
  case False
  have "matches taxIdRegex v \<Longrightarrow> length v = 16"
    by (auto simp: taxIdRegex_def matches_rep)
  with False show ?thesis by (auto simp: tax_id_format_def)
next
  case True
  then obtain c0 c1 c2 c3 c4 c5 c6 c7 c8 c9 c10 c11 c12 c13 c14 c15
    where v: "v = [c0, c1, c2, c3, c4, c5, c6, c7, c8, c9, c10, c11, c12, c13, c14, c15]"
    by (auto simp: eval_nat_numeral length_Suc_conv)
  show ?thesis
    unfolding v taxIdRegex_def tax_id_format_def
    by (simp add: matches_rep atom_ok_Digit atom_ok_Upper del: atom_ok.simps(1,2))
qed

subsection \<open>The header\<close>

lemma validateHeader_eq:
  "validateHeader nts s =
     eval_then (get_member (invoice s) ''InvoiceHeader'') (\<lambda>header.
       if \<not> truthy header then addError ''Structure: 'InvoiceHeader' object is missing.''
       else
         seq (identifier_check nts header ''MessageSenderIdentifier''
                ''Header: Sender 'MessageSenderIdentifier' is missing or empty.''
                sender_format_msg)
             (identifier_check nts header ''MessageReceiverIdentifier''
                ''Header: Receiver 'MessageReceiverIdentifier' is missing or empty.''
                receiver_format_msg))
       s"
  unfolding validateHeader_def identifier_check_def by (rule refl)

lemma identifier_check_eq:
  assumes "truthy header"
  shows "identifier_check nts header field mm fm s =
     (if identifier_faults nts header field then Thrown TypeError else Normal,
      s\<lparr>errors := errors s @ identifier_msgs nts header field mm fm\<rparr>)"
proof -
  let ?p = "prop_of header field"
  let ?x = "prop_of ?p ''value''"
  from assms have h: "get_member header field = Inr ?p"
    by (simp add: get_member_eq truthy_not_nullish)
  show ?thesis
  proof (cases "truthy ?p \<and> truthy ?x")
    case False
    with assms show ?thesis
      by (auto simp: identifier_check_def h eval_then_def or_else_def bind_fault_def
          get_member_eq truthy_not_nullish addError_def identifier_msgs_def
          identifier_faults_def)
  next
    case True
    then have p: "get_member ?p ''value'' = Inr ?x"
      by (simp add: get_member_eq truthy_not_nullish)
    show ?thesis
    proof (cases "to_string nts ?x")
      case (Inl e)
      then have "e = TypeError" by (cases e) simp
      with Inl True show ?thesis
        by (simp add: identifier_check_def h p eval_then_def or_else_def bind_fault_def
            regex_test_def identifier_msgs_def identifier_faults_def)
    next
      case (Inr v)
      with True show ?thesis
        by (simp add: identifier_check_def h p eval_then_def or_else_def bind_fault_def
            regex_test_def identifier_msgs_def identifier_faults_def addError_def skip_def)
    qed
  qed
qed

lemma validateHeader_present:
  assumes "get_member (invoice s) ''InvoiceHeader'' = Inr header" and "truthy header"
  shows "validateHeader nts s =
     (if identifier_faults nts header ''MessageSenderIdentifier''
         \<or> identifier_faults nts header ''MessageReceiverIdentifier''
      then Thrown TypeError else Normal,
      s\<lparr>errors := errors s
         @ identifier_msgs nts header ''MessageSenderIdentifier''
             ''Header: Sender 'MessageSenderIdentifier' is missing or empty.'' sender_format_msg
         @ (if identifier_faults nts header ''MessageSenderIdentifier'' then []
            else identifier_msgs nts header ''MessageReceiverIdentifier''
              ''Header: Receiver 'MessageReceiverIdentifier' is missing or empty.''
              receiver_format_msg)\<rparr>)"
  using assms
  by (simp add: validateHeader_eq eval_then_def seq_def identifier_check_eq)

lemma sender_msg_not_receivers:
  "sender_format_msg v \<notin> set (identifier_msgs nts header field
      ''Header: Receiver 'MessageReceiverIdentifier' is missing or empty.'' receiver_format_msg)"
  by (auto simp: identifier_msgs_def Let_def sender_format_msg_def receiver_format_msg_def
      split: sum.splits if_splits)

lemma receiver_msg_not_senders:
  "receiver_format_msg w \<notin> set (identifier_msgs nts header field
      ''Header: Sender 'MessageSenderIdentifier' is missing or empty.'' sender_format_msg)"
  by (auto simp: identifier_msgs_def Let_def sender_format_msg_def receiver_format_msg_def
      split: sum.splits if_splits)

lemma converts_not_faults:
  "converts nts (prop_of (prop_of header field) ''value'') \<Longrightarrow>
   \<not> identifier_faults nts header field"
  by (simp add: identifier_faults_def converts_def)

lemma header_formats:
  assumes "get_member (invoice s) ''InvoiceHeader'' = Inr header" and "truthy header"
  shows
    "(prop_of (prop_of header ''MessageSenderIdentifier'') ''value'' = x \<and> truthy x
        \<and> to_string nts x = Inr v
      \<longrightarrow> (''Header: Sender Tax ID '' @ [CHR 0x27] @ v @ [CHR 0x27] @ '' has an invalid format.''
               \<in> set (recorded s (snd (validateHeader nts s)))
             \<longleftrightarrow> \<not> tax_id_format v))
   \<and> (converts nts (prop_of (prop_of header ''MessageSenderIdentifier'') ''value'')
        \<and> prop_of (prop_of header ''MessageReceiverIdentifier'') ''value'' = y \<and> truthy y
        \<and> to_string nts y = Inr w
      \<longrightarrow> (''Header: Receiver Tax ID '' @ [CHR 0x27] @ w @ [CHR 0x27] @ '' has an invalid format.''
               \<in> set (recorded s (snd (validateHeader nts s)))
             \<longleftrightarrow> \<not> tax_id_format w))"
proof (intro conjI impI)
  let ?smm = "''Header: Sender 'MessageSenderIdentifier' is missing or empty.''"
  let ?rmm = "''Header: Receiver 'MessageReceiverIdentifier' is missing or empty.''"
  let ?S = "identifier_msgs nts header ''MessageSenderIdentifier'' ?smm sender_format_msg"
  let ?R = "identifier_msgs nts header ''MessageReceiverIdentifier'' ?rmm receiver_format_msg"
  note run = validateHeader_present [OF assms, of nts]
  {
    assume a: "prop_of (prop_of header ''MessageSenderIdentifier'') ''value'' = x \<and> truthy x
        \<and> to_string nts x = Inr v"
    then have tp: "truthy (prop_of header ''MessageSenderIdentifier'')"
      using truthy_prop_of by blast
    from a tp have nf: "\<not> identifier_faults nts header ''MessageSenderIdentifier''"
      by (simp add: identifier_faults_def)
    from a tp have S: "?S = (if tax_id_format v then [] else [sender_format_msg v])"
      by (simp add: identifier_msgs_def matches_taxIdRegex)
    have R: "sender_format_msg v \<notin> set ?R"
      by (rule sender_msg_not_receivers)
    have "recorded s (snd (validateHeader nts s)) = ?S @ ?R"
      using nf by (simp add: run recorded_append)
    with S R have "sender_format_msg v \<in> set (recorded s (snd (validateHeader nts s)))
             \<longleftrightarrow> \<not> tax_id_format v"
      by simp
    then show "''Header: Sender Tax ID '' @ [CHR 0x27] @ v @ [CHR 0x27] @ '' has an invalid format.''
               \<in> set (recorded s (snd (validateHeader nts s)))
             \<longleftrightarrow> \<not> tax_id_format v"
      by (simp only: sender_format_msg_def)
  }
  {
    assume a: "converts nts (prop_of (prop_of header ''MessageSenderIdentifier'') ''value'')
        \<and> prop_of (prop_of header ''MessageReceiverIdentifier'') ''value'' = y \<and> truthy y
        \<and> to_string nts y = Inr w"
    then have tp: "truthy (prop_of header ''MessageReceiverIdentifier'')"
      using truthy_prop_of by blast
    from a have nf: "\<not> identifier_faults nts header ''MessageSenderIdentifier''"
      by (simp add: converts_not_faults)
    from a tp have R: "?R = (if tax_id_format w then [] else [receiver_format_msg w])"
      by (simp add: identifier_msgs_def matches_taxIdRegex)
    have S: "receiver_format_msg w \<notin> set ?S"
      by (rule receiver_msg_not_senders)
    have "recorded s (snd (validateHeader nts s)) = ?S @ ?R"
      using nf by (simp add: run recorded_append)
    with S R have "receiver_format_msg w \<in> set (recorded s (snd (validateHeader nts s)))
             \<longleftrightarrow> \<not> tax_id_format w"
      by simp
    then show "''Header: Receiver Tax ID '' @ [CHR 0x27] @ w @ [CHR 0x27] @ '' has an invalid format.''
               \<in> set (recorded s (snd (validateHeader nts s)))
             \<longleftrightarrow> \<not> tax_id_format w"
      by (simp only: receiver_format_msg_def)
  }
qed

lemma header_of_value:
  assumes "truthy (prop_of (prop_of (prop_of D ''InvoiceHeader'') field) ''value'')"
  shows "get_member D ''InvoiceHeader'' = Inr (prop_of D ''InvoiceHeader'')
     \<and> truthy (prop_of D ''InvoiceHeader'')"
proof -
  from assms have "truthy (prop_of (prop_of D ''InvoiceHeader'') field)"
    by (rule truthy_prop_of)
  then have h: "truthy (prop_of D ''InvoiceHeader'')"
    by (rule truthy_prop_of)
  then have "truthy D"
    by (rule truthy_prop_of)
  then have "\<not> nullish D"
    by (rule truthy_not_nullish)
  then show ?thesis using h by (simp add: get_member_ok)
qed

text \<open>
  Claim C7, as the code has it. For every document with a present, non-empty sender
  identifier value that can be converted to a string, where \<open>v\<close> is its text (the value
  itself when it is a string), the header group records the violation
  \<open>Header: Sender Tax ID 'v' has an invalid format.\<close> exactly when \<open>v\<close> does not have the
  format of a tax identifier: seven digits, an uppercase letter, \<open>/\<close>, an uppercase letter,
  \<open>/\<close>, an uppercase letter, \<open>/\<close>, three digits. The same holds for the receiver's
  identifier value and the violation \<open>Header: Receiver Tax ID 'w' has an invalid format.\<close>,
  provided also that the sender's value can be converted to a string: the receiver is
  checked after the sender.
\<close>

theorem C7_identifier_format:
    "(prop_of (prop_of (prop_of (invoice s) ''InvoiceHeader'') ''MessageSenderIdentifier'')
          ''value'' = x
        \<and> truthy x \<and> to_string nts x = Inr v
      \<longrightarrow> (''Header: Sender Tax ID '' @ [CHR 0x27] @ v @ [CHR 0x27] @ '' has an invalid format.''
               \<in> set (recorded s (snd (validateHeader nts s)))
             \<longleftrightarrow> \<not> tax_id_format v))
   \<and> (converts nts (prop_of (prop_of (prop_of (invoice s) ''InvoiceHeader'')
          ''MessageSenderIdentifier'') ''value'')
        \<and> prop_of (prop_of (prop_of (invoice s) ''InvoiceHeader'') ''MessageReceiverIdentifier'')
          ''value'' = y
        \<and> truthy y \<and> to_string nts y = Inr w
      \<longrightarrow> (''Header: Receiver Tax ID '' @ [CHR 0x27] @ w @ [CHR 0x27] @ '' has an invalid format.''
               \<in> set (recorded s (snd (validateHeader nts s)))
             \<longleftrightarrow> \<not> tax_id_format w))"
proof (intro conjI impI)
  assume a: "prop_of (prop_of (prop_of (invoice s) ''InvoiceHeader'') ''MessageSenderIdentifier'')
          ''value'' = x
        \<and> truthy x \<and> to_string nts x = Inr v"
  then have "truthy (prop_of (prop_of (prop_of (invoice s) ''InvoiceHeader'')
      ''MessageSenderIdentifier'') ''value'')"
    by simp
  then have h: "get_member (invoice s) ''InvoiceHeader'' = Inr (prop_of (invoice s) ''InvoiceHeader'')
     \<and> truthy (prop_of (invoice s) ''InvoiceHeader'')"
    by (rule header_of_value)
  from header_formats [OF h [THEN conjunct1] h [THEN conjunct2], THEN conjunct1, rule_format, OF a]
  show "''Header: Sender Tax ID '' @ [CHR 0x27] @ v @ [CHR 0x27] @ '' has an invalid format.''
               \<in> set (recorded s (snd (validateHeader nts s)))
             \<longleftrightarrow> \<not> tax_id_format v" .
next
  assume a: "converts nts (prop_of (prop_of (prop_of (invoice s) ''InvoiceHeader'')
          ''MessageSenderIdentifier'') ''value'')
        \<and> prop_of (prop_of (prop_of (invoice s) ''InvoiceHeader'') ''MessageReceiverIdentifier'')
          ''value'' = y
        \<and> truthy y \<and> to_string nts y = Inr w"
  then have "truthy (prop_of (prop_of (prop_of (invoice s) ''InvoiceHeader'')
      ''MessageReceiverIdentifier'') ''value'')"
    by simp
  then have h: "get_member (invoice s) ''InvoiceHeader'' = Inr (prop_of (invoice s) ''InvoiceHeader'')
     \<and> truthy (prop_of (invoice s) ''InvoiceHeader'')"
    by (rule header_of_value)
  from header_formats [OF h [THEN conjunct1] h [THEN conjunct2], THEN conjunct2, rule_format, OF a]
  show "''Header: Receiver Tax ID '' @ [CHR 0x27] @ w @ [CHR 0x27] @ '' has an invalid format.''
               \<in> set (recorded s (snd (validateHeader nts s)))
             \<longleftrightarrow> \<not> tax_id_format w" .
qed

theorem C7_identifier_format_witness:
  "prop_of (prop_of (prop_of (invoice (new_validator badSenderData)) ''InvoiceHeader'')
         ''MessageSenderIdentifier'') ''value'' = JStr ''BADID''
   \<and> truthy (JStr ''BADID'') \<and> to_string (\<lambda>n. []) (JStr ''BADID'') = Inr ''BADID''
   \<and> \<not> tax_id_format ''BADID''
   \<and> ''Header: Sender Tax ID '' @ [CHR 0x27] @ ''BADID'' @ [CHR 0x27] @ '' has an invalid format.''
        \<in> set (recorded (new_validator badSenderData)
                 (snd (validateHeader (\<lambda>n. []) (new_validator badSenderData))))
   \<and> converts (\<lambda>n. []) (prop_of (prop_of (prop_of (invoice (new_validator badSenderData))
         ''InvoiceHeader'') ''MessageSenderIdentifier'') ''value'')
   \<and> prop_of (prop_of (prop_of (invoice (new_validator badSenderData)) ''InvoiceHeader'')
         ''MessageReceiverIdentifier'') ''value'' = JStr ''7654321C/D/N/000''
   \<and> truthy (JStr ''7654321C/D/N/000'')
   \<and> to_string (\<lambda>n. []) (JStr ''7654321C/D/N/000'') = Inr ''7654321C/D/N/000''
   \<and> tax_id_format ''7654321C/D/N/000''
   \<and> ''Header: Receiver Tax ID '' @ [CHR 0x27] @ ''7654321C/D/N/000'' @ [CHR 0x27]
         @ '' has an invalid format.''
        \<notin> set (recorded (new_validator badSenderData)
                 (snd (validateHeader (\<lambda>n. []) (new_validator badSenderData))))"
proof -
  have a: "prop_of (prop_of (prop_of (invoice (new_validator badSenderData)) ''InvoiceHeader'')
         ''MessageSenderIdentifier'') ''value'' = JStr ''BADID''"
    by code_simp
  have b: "prop_of (prop_of (prop_of (invoice (new_validator badSenderData)) ''InvoiceHeader'')
         ''MessageReceiverIdentifier'') ''value'' = JStr ''7654321C/D/N/000''"
    by code_simp
  have c: "\<not> tax_id_format ''BADID''" "tax_id_format ''7654321C/D/N/000''"
    by code_simp+
  have d: "converts (\<lambda>n. []) (prop_of (prop_of (prop_of (invoice (new_validator badSenderData))
         ''InvoiceHeader'') ''MessageSenderIdentifier'') ''value'')"
    by code_simp
  from C7_identifier_format [of "new_validator badSenderData" "JStr ''BADID''" "\<lambda>n. []" "''BADID''"
      "JStr ''7654321C/D/N/000''" "''7654321C/D/N/000''"] a b c d
  show ?thesis by simp
qed

text \<open>The claim as it was stated fails on the example with a record holding its own
  \<open>toString\<close> entry as the sender's value and \<open>BADID\<close> as the receiver's: the conversion of
  the sender's value throws, and the group records no format violation, neither for the
  sender's value nor for \<open>BADID\<close>.\<close>

theorem C7_counterexample:
  "prop_of (prop_of (prop_of toStringSenderData ''InvoiceHeader'') ''MessageSenderIdentifier'')
      ''value'' = JObj [(''toString'', JNum (Fin 1))]
   \<and> prop_of (prop_of (prop_of toStringSenderData ''InvoiceHeader'')
        ''MessageReceiverIdentifier'') ''value'' = JStr ''BADID''
   \<and> \<not> tax_id_format ''BADID''
   \<and> validateHeader (\<lambda>n. []) (new_validator toStringSenderData)
       = (Thrown TypeError, new_validator toStringSenderData)
   \<and> recorded (new_validator toStringSenderData)
        (snd (validateHeader (\<lambda>n. []) (new_validator toStringSenderData))) = []
   \<and> fst (validate (\<lambda>n. []) (new_validator toStringSenderData)) = Inl TypeError"
  by code_simp

subsection \<open>The lines\<close>

lemma ident_cond:
  "\<not> nullish l \<Longrightarrow>
   bind_fault (get_member l ''ItemIdentifier'') (\<lambda>i.
     or_else (\<not> truthy i)
       (bind_fault (get_member l ''Description'') (\<lambda>d. Inr (\<not> truthy d))))
   = Inr (missing_ident l)"
  by (simp add: get_member_eq bind_fault_def or_else_def missing_ident_def)

lemma quantity_cond:
  "\<not> nullish l \<Longrightarrow>
   bind_fault (get_member l ''Quantity'') (\<lambda>q.
     or_else (\<not> is_number q)
       (bind_fault (get_member l ''Quantity'') (\<lambda>q. Inr (num_le (the_number q) (Fin 0)))))
   = Inr (bad_quantity l)"
  by (cases "prop_of l ''Quantity''")
     (simp_all add: get_member_eq bind_fault_def or_else_def bad_quantity_def is_number_def
        the_number_def)

lemma price_cond:
  "\<not> nullish l \<Longrightarrow>
   bind_fault (get_member l ''UnitPrice'') (\<lambda>u.
     or_else (\<not> is_number u)
       (bind_fault (get_member l ''UnitPrice'') (\<lambda>u. Inr (num_less (the_number u) (Fin 0)))))
   = Inr (bad_price l)"
  by (cases "prop_of l ''UnitPrice''")
     (simp_all add: get_member_eq bind_fault_def or_else_def bad_price_def is_number_def
        the_number_def)

lemma line_callback_eq:
  "line_callback l i s =
     (if nullish l then (Thrown TypeError, s)
      else (Normal, s\<lparr>errors := errors s @ line_violations (Suc i) l\<rparr>))"
proof (cases "nullish l")
  case True
  then show ?thesis
    by (simp add: line_callback_def get_member_eq seq_def eval_then_def bind_fault_def)
next
  case False
  then show ?thesis
    unfolding line_callback_def
    by (simp add: ident_cond quantity_cond price_cond seq_def eval_then_def if_then_def
        skip_def addError_def line_violations_def)
qed

lemma forEach_from_lines:
  "forEach_from i line_callback ls s =
     (if list_ex nullish ls then Thrown TypeError else Normal,
      s\<lparr>errors := errors s @ all_violations (Suc i) (takeWhile (\<lambda>l. \<not> nullish l) ls)\<rparr>)"
proof (induction ls arbitrary: i s)
  case Nil
  show ?case by simp
next
  case (Cons l ls)
  show ?case
    by (cases "nullish l") (simp_all add: line_callback_eq [of l i s] Cons.IH)
qed

lemma validateLines_eq:
  assumes "line_collection (invoice s) = Inr (JArr ls)" and "ls \<noteq> []"
  shows "validateLines s =
     (if list_ex nullish ls then Thrown TypeError else Normal,
      s\<lparr>errors := errors s @ all_violations 1 (takeWhile (\<lambda>l. \<not> nullish l) ls)\<rparr>)"
  using assms
  by (simp add: validateLines_def eval_then_def is_array_def array_length_def elements_def
      forEach_def forEach_from_lines)

lemma read_show_nat: "read_nat (show_nat n) = n"
proof (induction n rule: show_nat.induct)
  case (1 n)
  show ?case
  proof (cases "n < 10")
    case True
    then show ?thesis by (subst show_nat.simps) (simp add: read_nat_def)
  next
    case False
    have "n mod 10 < 10" by simp
    then have d: "of_char (char_of (48 + n mod 10) :: char) = 48 + n mod 10"
      by (simp add: of_char_of)
    have "read_nat (show_nat n) = 10 * read_nat (show_nat (n div 10)) + n mod 10"
      using False d by (subst show_nat.simps) (simp add: read_nat_def)
    with 1 False show ?thesis by simp
  qed
qed

lemma show_nat_inj: "show_nat a = show_nat b \<Longrightarrow> a = b"
  by (metis read_show_nat)

lemma line_quantity_msg_inj: "line_quantity_msg a = line_quantity_msg b \<Longrightarrow> a = b"
  by (simp add: line_quantity_msg_def show_nat_inj)

lemma line_price_msg_inj: "line_price_msg a = line_price_msg b \<Longrightarrow> a = b"
  by (simp add: line_price_msg_def show_nat_inj)

lemma line_msgs_distinct:
  "line_quantity_msg a \<noteq> line_ident_msg b"
  "line_quantity_msg a \<noteq> line_price_msg b"
  "line_price_msg a \<noteq> line_ident_msg b"
proof -
  show "line_quantity_msg a \<noteq> line_ident_msg b"
  proof
    assume "line_quantity_msg a = line_ident_msg b"
    then have "rev (line_quantity_msg a) = rev (line_ident_msg b)" by simp
    then show False by (simp add: line_quantity_msg_def line_ident_msg_def)
  qed
  show "line_quantity_msg a \<noteq> line_price_msg b"
  proof
    assume "line_quantity_msg a = line_price_msg b"
    then have "rev (line_quantity_msg a) = rev (line_price_msg b)" by simp
    then show False by (simp add: line_quantity_msg_def line_price_msg_def)
  qed
  show "line_price_msg a \<noteq> line_ident_msg b"
  proof
    assume "line_price_msg a = line_ident_msg b"
    then have "rev (line_price_msg a) = rev (line_ident_msg b)" by simp
    then show False by (simp add: line_price_msg_def line_ident_msg_def)
  qed
qed

lemma all_violations_member:
  "m \<in> set (all_violations n ls) \<Longrightarrow> \<exists>j<length ls. m \<in> set (line_violations (n + j) (ls ! j))"
proof (induction ls arbitrary: n)
  case Nil
  then show ?case by simp
next
  case (Cons l ls)
  from Cons.prems consider "m \<in> set (line_violations n l)" | "m \<in> set (all_violations (Suc n) ls)"
    by auto
  then show ?case
  proof cases
    case 1
    then show ?thesis by (intro exI [of _ 0]) simp
  next
    case 2
    from Cons.IH [OF 2] obtain j where "j < length ls" "m \<in> set (line_violations (Suc n + j) (ls ! j))"
      by blast
    then show ?thesis by (intro exI [of _ "Suc j"]) simp
  qed
qed

lemma quantity_msg_in_violations:
  "line_quantity_msg a \<in> set (line_violations b l) \<longleftrightarrow> a = b \<and> bad_quantity l"
  using line_msgs_distinct line_quantity_msg_inj
  by (auto simp: line_violations_def)

lemma price_msg_in_violations:
  "line_price_msg a \<in> set (line_violations b l) \<longleftrightarrow> a = b \<and> bad_price l"
  using line_msgs_distinct [of b a] line_msgs_distinct [of a b] line_price_msg_inj
  by (auto simp: line_violations_def)

lemma all_violations_zip:
  "all_violations n ls = concat (map (\<lambda>(i, l). line_violations i l) (zip [n..<n + length ls] ls))"
proof (induction ls arbitrary: n)
  case Nil
  show ?case by simp
next
  case (Cons l ls)
  have "[n..<n + length (l # ls)] = n # [Suc n..<Suc n + length ls]"
    by (subst upt_rec) simp
  then show ?case by (simp add: Cons.IH)
qed

lemma all_violations_single:
  assumes "k < length ls"
    and "\<forall>j<length ls. j \<noteq> k \<longrightarrow> line_violations (n + j) (ls ! j) = []"
  shows "all_violations n ls = line_violations (n + k) (ls ! k)"
  using assms
proof (induction ls arbitrary: n k)
  case Nil
  then show ?case by simp
next
  case (Cons l ls)
  have rest: "\<forall>j<length ls. Suc j \<noteq> k \<longrightarrow> line_violations (Suc n + j) (ls ! j) = []"
  proof (intro allI impI)
    fix j assume "j < length ls" "Suc j \<noteq> k"
    with Cons.prems(2) [rule_format, of "Suc j"] show "line_violations (Suc n + j) (ls ! j) = []"
      by simp
  qed
  show ?case
  proof (cases k)
    case 0
    have "all_violations (Suc n) ls = []"
    proof (cases ls)
      case Nil
      then show ?thesis by simp
    next
      case (Cons a as)
      have "\<forall>j<length ls. line_violations (Suc n + j) (ls ! j) = []"
        using rest 0 by simp
      then have "\<forall>m. m \<notin> set (all_violations (Suc n) ls)"
        using all_violations_member [of _ "Suc n" ls] by fastforce
      then show ?thesis by (cases "all_violations (Suc n) ls") auto
    qed
    with 0 show ?thesis by simp
  next
    case (Suc k')
    with Cons.prems have k': "k' < length ls" by simp
    have "\<forall>j<length ls. j \<noteq> k' \<longrightarrow> line_violations (Suc n + j) (ls ! j) = []"
      using rest Suc by simp
    from Cons.IH [OF k' this] have "all_violations (Suc n) ls = line_violations (Suc n + k') (ls ! k')" .
    moreover have "line_violations n l = []"
      using Cons.prems(2) [rule_format, of 0] Suc by simp
    ultimately show ?thesis using Suc by simp
  qed
qed

lemma shift_skip: "skip (t\<lparr>errors := es @ errors t\<rparr>) = shifted es (skip t)"
  by (simp add: skip_def shifted_def)

lemma shift_addError: "addError m (t\<lparr>errors := es @ errors t\<rparr>) = shifted es (addError m t)"
  by (simp add: addError_def shifted_def)

lemma shift_seq:
  assumes a: "\<And>t. a (t\<lparr>errors := es @ errors t\<rparr>) = shifted es (a t)"
    and b: "\<And>t. b (t\<lparr>errors := es @ errors t\<rparr>) = shifted es (b t)"
  shows "seq a b (t\<lparr>errors := es @ errors t\<rparr>) = shifted es (seq a b t)"
proof (cases "a t")
  case (Pair c t')
  then have "a (t\<lparr>errors := es @ errors t\<rparr>) = (c, t'\<lparr>errors := es @ errors t'\<rparr>)"
    by (simp add: a shifted_def)
  with Pair b [of t'] show ?thesis
    by (cases c) (simp_all add: seq_def shifted_def)
qed

lemma shift_eval_then:
  assumes "\<And>v t. k v (t\<lparr>errors := es @ errors t\<rparr>) = shifted es (k v t)"
  shows "eval_then r k (t\<lparr>errors := es @ errors t\<rparr>) = shifted es (eval_then r k t)"
  using assms by (cases r) (simp_all add: eval_then_def shifted_def)

lemma shift_if_then:
  assumes "\<And>t. a (t\<lparr>errors := es @ errors t\<rparr>) = shifted es (a t)"
  shows "if_then c a (t\<lparr>errors := es @ errors t\<rparr>) = shifted es (if_then c a t)"
  using assms by (simp add: if_then_def shift_skip)

lemma shift_if:
  assumes "\<And>t. a (t\<lparr>errors := es @ errors t\<rparr>) = shifted es (a t)"
    and "\<And>t. b (t\<lparr>errors := es @ errors t\<rparr>) = shifted es (b t)"
  shows "(if c then a else b) (t\<lparr>errors := es @ errors t\<rparr>) = shifted es ((if c then a else b) t)"
  using assms by simp

lemmas shift_intros = shift_skip shift_addError shift_seq shift_eval_then shift_if_then shift_if

lemma shift_validateTotals:
  "validateTotals (t\<lparr>errors := es @ errors t\<rparr>) = shifted es (validateTotals t)"
proof -
  have i: "invoice (t\<lparr>errors := es @ errors t\<rparr>) = invoice t" by simp
  show ?thesis
    unfolding validateTotals_def i by (intro shift_intros)
qed

lemma silent_validateTotals:
  assumes "silent validateTotals D"
  shows "validateTotals \<lparr>invoice = D, errors = es\<rparr> = (Normal, \<lparr>invoice = D, errors = es\<rparr>)"
  using shift_validateTotals [where t = "\<lparr>invoice = D, errors = []\<rparr>" and es = es] assms
  by (simp add: silent_def shifted_def)

lemma line_violations_text:
  "line_violations n l =
     (if missing_ident l
      then [''Line '' @ show_nat n @ '': 'ItemIdentifier' or 'Description' is missing.'']
      else [])
   @ (if bad_quantity l
      then [''Line '' @ show_nat n @ '': 'Quantity' must be a positive number.'']
      else [])
   @ (if bad_price l
      then [''Line '' @ show_nat n @ '': 'UnitPrice' must be a non-negative number.'']
      else [])"
  by (simp only: line_violations_def line_ident_msg_def line_quantity_msg_def line_price_msg_def)

text \<open>
  Claim C8, as the code has it. When the line collection is a non-empty sequence with no
  entry that is \<open>undefined\<close> or \<open>null\<close>, the group completes and records, line after line in
  order and whatever the earlier lines gave, up to three violations per line:
  \<open>Line n: 'ItemIdentifier' or 'Description' is missing.\<close> when the identifier or the
  description is missing, \<open>Line n: 'Quantity' must be a positive number.\<close> when the quantity
  is not a number or is not positive, \<open>Line n: 'UnitPrice' must be a non-negative number.\<close>
  when the unit price is not a number or is negative, where \<open>n\<close> is the 1-based position of
  the line in decimal digits. In particular, on every document on which the five other
  groups record nothing and whose lines have no violation except that one line has the unit
  price \<open>-5\<close>, \<open>validate\<close> returns exactly one error, the unit-price violation with the
  position of that line; so it does on the example document with the unit price \<open>-5\<close> in
  its second line.
\<close>

theorem C8_lines_checked_in_order:
  assumes "line_collection (invoice s) = Inr (JArr ls)" and "ls \<noteq> []"
    and "\<forall>l\<in>set ls. \<not> nullish l"
  shows
    "validateLines s =
       (Normal, s\<lparr>errors := errors s
          @ concat (map (\<lambda>(n, l).
               (if missing_ident l
                then [''Line '' @ show_nat n @ '': 'ItemIdentifier' or 'Description' is missing.'']
                else [])
             @ (if bad_quantity l
                then [''Line '' @ show_nat n @ '': 'Quantity' must be a positive number.'']
                else [])
             @ (if bad_price l
                then [''Line '' @ show_nat n @ '': 'UnitPrice' must be a non-negative number.'']
                else []))
             (zip [1..<1 + length ls] ls))\<rparr>)
     \<and> (\<forall>n. read_nat (show_nat n) = n)
     \<and> (\<forall>k<length ls.
          silent validateRoot (invoice s) \<and> silent (validateHeader nts) (invoice s)
          \<and> silent validateBgmAndDtm (invoice s) \<and> silent validatePartners (invoice s)
          \<and> silent validateTotals (invoice s)
          \<and> (\<forall>j<length ls. j \<noteq> k \<longrightarrow>
                \<not> missing_ident (ls ! j) \<and> \<not> bad_quantity (ls ! j) \<and> \<not> bad_price (ls ! j))
          \<and> \<not> missing_ident (ls ! k) \<and> \<not> bad_quantity (ls ! k)
          \<and> prop_of (ls ! k) ''UnitPrice'' = JNum (Fin (- 5))
          \<longrightarrow> fst (validate nts s) =
                Inr \<lparr>isValid = False,
                     rep_errors =
                       [''Line '' @ show_nat (Suc k)
                          @ '': 'UnitPrice' must be a non-negative number.'']\<rparr>)
     \<and> fst (validate nts (new_validator negativePriceData))
         = Inr \<lparr>isValid = False,
                rep_errors = [''Line 2: 'UnitPrice' must be a non-negative number.'']\<rparr>"
proof (intro conjI allI impI)
  from assms(3) have tw: "takeWhile (\<lambda>l. \<not> nullish l) ls = ls" and nn: "\<not> list_ex nullish ls"
    by (simp_all add: list_ex_iff)
  have run: "validateLines t = (Normal, t\<lparr>errors := errors t @ all_violations 1 ls\<rparr>)"
    if "invoice t = invoice s" for t
  proof -
    from that assms(1) have "line_collection (invoice t) = Inr (JArr ls)" by simp
    from validateLines_eq [OF this assms(2)] show ?thesis unfolding tw using nn by simp
  qed
  show "validateLines s =
       (Normal, s\<lparr>errors := errors s
          @ concat (map (\<lambda>(n, l).
               (if missing_ident l
                then [''Line '' @ show_nat n @ '': 'ItemIdentifier' or 'Description' is missing.'']
                else [])
             @ (if bad_quantity l
                then [''Line '' @ show_nat n @ '': 'Quantity' must be a positive number.'']
                else [])
             @ (if bad_price l
                then [''Line '' @ show_nat n @ '': 'UnitPrice' must be a non-negative number.'']
                else []))
             (zip [1..<1 + length ls] ls))\<rparr>)"
    unfolding run [OF refl] all_violations_zip [of 1 ls] line_violations_text by (rule refl)
  show "read_nat (show_nat n) = n" for n
    by (rule read_show_nat)
  show "fst (validate nts s) =
                Inr \<lparr>isValid = False,
                     rep_errors =
                       [''Line '' @ show_nat (Suc k)
                          @ '': 'UnitPrice' must be a non-negative number.'']\<rparr>"
    if k: "k < length ls"
      and h: "silent validateRoot (invoice s) \<and> silent (validateHeader nts) (invoice s)
          \<and> silent validateBgmAndDtm (invoice s) \<and> silent validatePartners (invoice s)
          \<and> silent validateTotals (invoice s)
          \<and> (\<forall>j<length ls. j \<noteq> k \<longrightarrow>
                \<not> missing_ident (ls ! j) \<and> \<not> bad_quantity (ls ! j) \<and> \<not> bad_price (ls ! j))
          \<and> \<not> missing_ident (ls ! k) \<and> \<not> bad_quantity (ls ! k)
          \<and> prop_of (ls ! k) ''UnitPrice'' = JNum (Fin (- 5))" for k
  proof -
    let ?msg = "''Line '' @ show_nat (Suc k) @ '': 'UnitPrice' must be a non-negative number.''"
    let ?s0 = "\<lparr>invoice = invoice s, errors = []\<rparr>"
    have s0: "s\<lparr>errors := []\<rparr> = ?s0" by (cases s) simp
    from h have "\<forall>j<length ls. j \<noteq> k \<longrightarrow> line_violations (1 + j) (ls ! j) = []"
      by (simp add: line_violations_def)
    then have "all_violations 1 ls = line_violations (1 + k) (ls ! k)"
      by (rule all_violations_single [OF k])
    also from h have "\<dots> = [?msg]"
      by (simp add: line_violations_text bad_price_def)
    finally have v: "all_violations 1 ls = [?msg]" .
    have g1: "validateRoot ?s0 = (Normal, ?s0)" using h by (simp add: silent_def)
    have g2: "validateHeader nts ?s0 = (Normal, ?s0)" using h by (simp add: silent_def)
    have g3: "validateBgmAndDtm ?s0 = (Normal, ?s0)" using h by (simp add: silent_def)
    have g4: "validatePartners ?s0 = (Normal, ?s0)" using h by (simp add: silent_def)
    have g5: "validateLines ?s0 = (Normal, \<lparr>invoice = invoice s, errors = [?msg]\<rparr>)"
      using run [of ?s0] v by simp
    have g6: "validateTotals \<lparr>invoice = invoice s, errors = [?msg]\<rparr>
        = (Normal, \<lparr>invoice = invoice s, errors = [?msg]\<rparr>)"
    proof -
      from h have "silent validateTotals (invoice s)" by simp
      then show ?thesis by (rule silent_validateTotals)
    qed
    have "run_all nts ?s0 = (Normal, \<lparr>invoice = invoice s, errors = [?msg]\<rparr>)"
      by (simp only: run_all_def seq_def g1 g2 g3 g4 g5 g6 split_conv completion.case)
    then show ?thesis by (simp add: validate_def s0)
  qed
  show "fst (validate nts (new_validator negativePriceData))
         = Inr \<lparr>isValid = False,
                rep_errors = [''Line 2: 'UnitPrice' must be a non-negative number.'']\<rparr>"
    by code_simp
qed

theorem C8_lines_checked_in_order_witness:
  "line_collection (invoice (new_validator negativePriceData))
      = Inr (JArr (elements (prop_of (index0_of (prop_of negativePriceData ''LinSection''))
                ''Lin'')))
   \<and> elements (prop_of (index0_of (prop_of negativePriceData ''LinSection'')) ''Lin'') \<noteq> []
   \<and> list_all (\<lambda>l. \<not> nullish l)
        (elements (prop_of (index0_of (prop_of negativePriceData ''LinSection'')) ''Lin''))
   \<and> silent validateRoot negativePriceData
   \<and> silent (validateHeader (\<lambda>n. [])) negativePriceData
   \<and> silent validateBgmAndDtm negativePriceData
   \<and> silent validatePartners negativePriceData
   \<and> silent validateTotals negativePriceData
   \<and> prop_of (elements (prop_of (index0_of (prop_of negativePriceData ''LinSection'')) ''Lin'')
         ! 1) ''UnitPrice'' = JNum (Fin (- 5))
   \<and> validateLines (new_validator negativePriceData)
       = (Normal, \<lparr>invoice = negativePriceData,
                   errors = [''Line 2: 'UnitPrice' must be a non-negative number.'']\<rparr>)
   \<and> fst (validate (\<lambda>n. []) (new_validator negativePriceData)) =
       Inr \<lparr>isValid = False,
            rep_errors =
              [''Line '' @ show_nat (Suc 1) @ '': 'UnitPrice' must be a non-negative number.'']\<rparr>"
proof -
  let ?s = "new_validator negativePriceData"
  let ?ls = "elements (prop_of (index0_of (prop_of negativePriceData ''LinSection'')) ''Lin'')"
  have ls: "?ls =
     [JObj [(''ItemIdentifier'', JStr ''PRD-001''), (''Description'', JStr ''Laptop''),
            (''Quantity'', JNum (Fin 2)), (''UnitPrice'', JNum (Fin 1200)),
            (''LineTotal'', JNum (Fin 2400))],
      JObj [(''ItemIdentifier'', JStr ''PRD-002''), (''Description'', JStr ''Printer''),
            (''Quantity'', JNum (Fin 1)), (''UnitPrice'', JNum (Fin (- 5))),
            (''LineTotal'', JNum (Fin 600))]]"
    by code_simp
  have i: "invoice ?s = negativePriceData" by (simp add: new_validator_def)
  have h1: "line_collection (invoice ?s) = Inr (JArr ?ls)"
    by code_simp
  have h2: "?ls \<noteq> []" by (simp add: ls)
  have h3: "\<forall>l\<in>set ?ls. \<not> nullish l" by (simp add: ls nullish_def)
  have sil: "silent validateRoot negativePriceData"
    "silent (validateHeader (\<lambda>n. [])) negativePriceData"
    "silent validateBgmAndDtm negativePriceData"
    "silent validatePartners negativePriceData"
    "silent validateTotals negativePriceData"
    by code_simp+
  have k: "(1::nat) < length ?ls" by (simp add: ls)
  have h4: "(\<forall>j<length ?ls. j \<noteq> 1 \<longrightarrow>
                \<not> missing_ident (?ls ! j) \<and> \<not> bad_quantity (?ls ! j) \<and> \<not> bad_price (?ls ! j))
          \<and> \<not> missing_ident (?ls ! 1) \<and> \<not> bad_quantity (?ls ! 1)
          \<and> prop_of (?ls ! 1) ''UnitPrice'' = JNum (Fin (- 5))"
    unfolding ls
    by (simp add: less_Suc_eq missing_ident_def bad_quantity_def bad_price_def prop_of_def
        num_le_def)
  have run: "validateLines ?s
       = (Normal, \<lparr>invoice = negativePriceData,
                   errors = [''Line 2: 'UnitPrice' must be a non-negative number.'']\<rparr>)"
    by code_simp
  have prem: "silent validateRoot (invoice ?s) \<and> silent (validateHeader (\<lambda>n. [])) (invoice ?s)
          \<and> silent validateBgmAndDtm (invoice ?s) \<and> silent validatePartners (invoice ?s)
          \<and> silent validateTotals (invoice ?s)
          \<and> (\<forall>j<length ?ls. j \<noteq> 1 \<longrightarrow>
                \<not> missing_ident (?ls ! j) \<and> \<not> bad_quantity (?ls ! j) \<and> \<not> bad_price (?ls ! j))
          \<and> \<not> missing_ident (?ls ! 1) \<and> \<not> bad_quantity (?ls ! 1)
          \<and> prop_of (?ls ! 1) ''UnitPrice'' = JNum (Fin (- 5))"
    unfolding i using sil h4 by (intro conjI) blast+
  note all = C8_lines_checked_in_order [OF h1 h2 h3, of "\<lambda>n. []"]
  note scenario = all [THEN conjunct2, THEN conjunct2, THEN conjunct1, rule_format, OF k prem]
  have "fst (validate (\<lambda>n. []) ?s) =
       Inr \<lparr>isValid = False,
            rep_errors =
              [''Line '' @ show_nat (Suc 1) @ '': 'UnitPrice' must be a non-negative number.'']\<rparr>"
    by (rule scenario)
  moreover from h3 have "list_all (\<lambda>l. \<not> nullish l) ?ls" by (simp add: list_all_iff)
  moreover from h4 have "prop_of (?ls ! 1) ''UnitPrice'' = JNum (Fin (- 5))" by blast
  ultimately show ?thesis using h1 h2 sil run by blast
qed

text \<open>The claim as it was stated fails on the example with \<open>null\<close> as its first line: the
  loop throws on that entry, and the second line, whose unit price is \<open>-5\<close>, is never
  checked.\<close>

theorem C8_counterexample:
  "line_collection (invoice (new_validator nullLineData))
     = Inr (JArr
         [JNull,
          JObj [(''ItemIdentifier'', JStr ''PRD-002''), (''Description'', JStr ''Printer''),
                (''Quantity'', JNum (Fin 1)), (''UnitPrice'', JNum (Fin (- 5))),
                (''LineTotal'', JNum (Fin 600))]])
   \<and> validateLines (new_validator nullLineData) = (Thrown TypeError, new_validator nullLineData)
   \<and> fst (validate (\<lambda>n. []) (new_validator nullLineData)) = Inl TypeError"
  by code_simp

text \<open>
  Claim C10. In a non-empty line collection, a line whose quantity is \<open>NaN\<close> gets no
  quantity violation and a line whose unit price is \<open>NaN\<close> gets no unit-price violation;
  when every line has its identifier and description and \<open>NaN\<close> as quantity and as unit
  price, the group completes and records nothing.
\<close>

theorem C10_NaN_lines_accepted:
  assumes "line_collection (invoice s) = Inr (JArr ls)" and "ls \<noteq> []"
  shows
    "(\<forall>k<length ls. prop_of (ls ! k) ''Quantity'' = JNum NaN
        \<longrightarrow> line_quantity_msg (Suc k) \<notin> set (recorded s (snd (validateLines s))))
     \<and> (\<forall>k<length ls. prop_of (ls ! k) ''UnitPrice'' = JNum NaN
        \<longrightarrow> line_price_msg (Suc k) \<notin> set (recorded s (snd (validateLines s))))
     \<and> ((\<forall>l\<in>set ls. \<not> missing_ident l \<and> prop_of l ''Quantity'' = JNum NaN
                      \<and> prop_of l ''UnitPrice'' = JNum NaN)
        \<longrightarrow> validateLines s = (Normal, s))"
proof (intro conjI allI impI)
  let ?pre = "takeWhile (\<lambda>l. \<not> nullish l) ls"
  have rec: "recorded s (snd (validateLines s)) = all_violations 1 ?pre"
    by (simp add: validateLines_eq [OF assms] recorded_append)
  show "line_quantity_msg (Suc k) \<notin> set (recorded s (snd (validateLines s)))"
    if "k < length ls" and q: "prop_of (ls ! k) ''Quantity'' = JNum NaN" for k
  proof
    assume "line_quantity_msg (Suc k) \<in> set (recorded s (snd (validateLines s)))"
    then obtain j where j: "j < length ?pre"
      and "line_quantity_msg (Suc k) \<in> set (line_violations (1 + j) (?pre ! j))"
      unfolding rec using all_violations_member by blast
    then have "k = j" "bad_quantity (?pre ! j)"
      by (simp_all add: quantity_msg_in_violations)
    with j have "bad_quantity (ls ! k)" by (simp add: takeWhile_nth)
    with q show False by (simp add: bad_quantity_def num_le_def)
  qed
  show "line_price_msg (Suc k) \<notin> set (recorded s (snd (validateLines s)))"
    if "k < length ls" and q: "prop_of (ls ! k) ''UnitPrice'' = JNum NaN" for k
  proof
    assume "line_price_msg (Suc k) \<in> set (recorded s (snd (validateLines s)))"
    then obtain j where j: "j < length ?pre"
      and "line_price_msg (Suc k) \<in> set (line_violations (1 + j) (?pre ! j))"
      unfolding rec using all_violations_member by blast
    then have "k = j" "bad_price (?pre ! j)"
      by (simp_all add: price_msg_in_violations)
    with j have "bad_price (ls ! k)" by (simp add: takeWhile_nth)
    with q show False by (simp add: bad_price_def)
  qed
  show "validateLines s = (Normal, s)"
    if h: "\<forall>l\<in>set ls. \<not> missing_ident l \<and> prop_of l ''Quantity'' = JNum NaN
                      \<and> prop_of l ''UnitPrice'' = JNum NaN"
  proof -
    have nn: "\<forall>l\<in>set ls. \<not> nullish l"
    proof
      fix l assume "l \<in> set ls"
      with h have "prop_of l ''Quantity'' = JNum NaN" by blast
      then show "\<not> nullish l" by (auto simp: nullish_def prop_of_def)
    qed
    have "\<forall>m. m \<notin> set (all_violations 1 ls)"
    proof (intro allI notI)
      fix m assume "m \<in> set (all_violations 1 ls)"
      then obtain j where "j < length ls" "m \<in> set (line_violations (1 + j) (ls ! j))"
        using all_violations_member by blast
      moreover from this h have "line_violations (1 + j) (ls ! j) = []"
        by (simp add: line_violations_def bad_quantity_def bad_price_def num_le_def)
      ultimately show False by simp
    qed
    then have "all_violations 1 ls = []" by (cases "all_violations 1 ls") auto
    moreover from nn have tw: "takeWhile (\<lambda>l. \<not> nullish l) ls = ls"
      and "\<not> list_ex nullish ls"
      by (simp_all add: list_ex_iff)
    ultimately show ?thesis unfolding validateLines_eq [OF assms] tw by simp
  qed
qed

theorem C10_NaN_lines_accepted_witness:
  "line_collection (invoice (new_validator nanLinesData))
      = Inr (JArr (elements (prop_of (index0_of (prop_of nanLinesData ''LinSection'')) ''Lin'')))
   \<and> elements (prop_of (index0_of (prop_of nanLinesData ''LinSection'')) ''Lin'') \<noteq> []
   \<and> prop_of (elements (prop_of (index0_of (prop_of nanLinesData ''LinSection'')) ''Lin'') ! 0)
        ''Quantity'' = JNum NaN
   \<and> prop_of (elements (prop_of (index0_of (prop_of nanLinesData ''LinSection'')) ''Lin'') ! 0)
        ''UnitPrice'' = JNum NaN
   \<and> line_quantity_msg (Suc 0)
        \<notin> set (recorded (new_validator nanLinesData)
                 (snd (validateLines (new_validator nanLinesData))))
   \<and> line_price_msg (Suc 0)
        \<notin> set (recorded (new_validator nanLinesData)
                 (snd (validateLines (new_validator nanLinesData))))
   \<and> validateLines (new_validator nanLinesData) = (Normal, new_validator nanLinesData)"
proof -
  let ?ls = "elements (prop_of (index0_of (prop_of nanLinesData ''LinSection'')) ''Lin'')"
  have ls: "?ls =
     [JObj [(''ItemIdentifier'', JStr ''PRD-001''), (''Description'', JStr ''Laptop''),
            (''Quantity'', JNum NaN), (''UnitPrice'', JNum NaN)]]"
    by code_simp
  have h1: "line_collection (invoice (new_validator nanLinesData)) = Inr (JArr ?ls)"
    by code_simp
  have h2: "?ls \<noteq> []" by (simp add: ls)
  have k: "0 < length ?ls" by (simp add: ls)
  have q: "prop_of (?ls ! 0) ''Quantity'' = JNum NaN" "prop_of (?ls ! 0) ''UnitPrice'' = JNum NaN"
    unfolding ls by (simp_all add: prop_of_def)
  have a: "\<forall>l\<in>set ?ls. \<not> missing_ident l \<and> prop_of l ''Quantity'' = JNum NaN
                      \<and> prop_of l ''UnitPrice'' = JNum NaN"
    unfolding ls by (simp add: prop_of_def missing_ident_def)
  from C10_NaN_lines_accepted [OF h1 h2] k q a h1 h2 show ?thesis by blast
qed

subsection \<open>The partners\<close>

lemma validatePartners_short:
  assumes "partner_details (invoice s) = Inr (JArr ps)" and "length ps < 2"
  shows "validatePartners s = (Normal, s\<lparr>errors := errors s @
    [''Partners: 'PartnerSection.PartnerDetails' must be an array with at least a supplier and a buyer.'']\<rparr>)"
  using assms
  by (simp add: validatePartners_def eval_then_def array_length_def elements_def addError_def)

text \<open>
  Claim C3, as the code has it. When the partner collection has fewer than two entries
  (in particular the supplier alone), the partner group records the length violation and
  nothing else: it returns before it searches for the supplier and the buyer. Every report
  of \<open>validate\<close> on such a document contains the length violation and does not contain the
  violation that a buyer is required.
\<close>

theorem C3_single_partner_only_length_violation:
  assumes "partner_details (invoice s) = Inr (JArr ps)" and "length ps < 2"
  shows "recorded s (snd (validatePartners s)) =
      [''Partners: 'PartnerSection.PartnerDetails' must be an array with at least a supplier and a buyer.'']
    \<and> (\<forall>r. fst (validate nts s) = Inr r \<longrightarrow>
          ''Partners: 'PartnerSection.PartnerDetails' must be an array with at least a supplier and a buyer.''
             \<in> set (rep_errors r)
          \<and> ''Partners: A buyer with functionCode 'I-61' is required.'' \<notin> set (rep_errors r))"
proof (intro conjI allI impI)
  let ?len = "''Partners: 'PartnerSection.PartnerDetails' must be an array with at least a supplier and a buyer.''"
  let ?buyer = "''Partners: A buyer with functionCode 'I-61' is required.''"
  show "recorded s (snd (validatePartners s)) = [?len]"
    by (simp add: validatePartners_short [OF assms] recorded_append)
  fix r assume "fst (validate nts s) = Inr r"
  then obtain s0 s1 s2 s3 s4 s5 s6 where s0: "s0 = s\<lparr>errors := []\<rparr>"
    and r: "rep_errors r = errors s6"
    and g1: "validateRoot s0 = (Normal, s1)" and g2: "validateHeader nts s1 = (Normal, s2)"
    and g3: "validateBgmAndDtm s2 = (Normal, s3)" and g4: "validatePartners s3 = (Normal, s4)"
    and g5: "validateLines s4 = (Normal, s5)" and g6: "validateTotals s5 = (Normal, s6)"
    unfolding validate_Inr run_all_Normal by auto
  have "invoice s1 = invoice s0" using inv_validateRoot [of s0] g1 by simp
  moreover have "invoice s2 = invoice s1" using inv_validateHeader [of nts s1] g2 by simp
  moreover have "invoice s3 = invoice s2" using inv_validateBgmAndDtm [of s2] g3 by simp
  ultimately have "invoice s3 = invoice s" using s0 by simp
  with assms have "partner_details (invoice s3) = Inr (JArr ps)" by simp
  from validatePartners_short [OF this assms(2)] g4
  have e4: "errors s4 = errors s3 @ [?len]" by auto
  from addsD [OF adds_validateRoot g1] obtain e1
    where e1: "errors s1 = errors s0 @ e1" "list_all (from_group ''Root: '') e1" by blast
  from addsD [OF adds_validateHeader g2] obtain e2
    where e2: "errors s2 = errors s1 @ e2"
      "list_all (\<lambda>m. from_group ''Structure: '' m \<or> from_group ''Header: '' m) e2" by blast
  from addsD [OF adds_validateBgmAndDtm g3] obtain e3
    where e3: "errors s3 = errors s2 @ e3" "list_all (from_group ''Body: '') e3" by blast
  from addsD [OF adds_validateLines g5] obtain e5
    where e5: "errors s5 = errors s4 @ e5"
      "list_all (\<lambda>m. from_group ''Lines: '' m \<or> from_group ''Line '' m) e5" by blast
  from addsD [OF adds_validateTotals g6] obtain e6
    where e6: "errors s6 = errors s5 @ e6"
      "list_all (\<lambda>m. from_group ''Totals: '' m \<or> from_group ''Tax: '' m) e6" by blast
  have all: "rep_errors r = e1 @ e2 @ e3 @ [?len] @ e5 @ e6"
    using r e1(1) e2(1) e3(1) e4 e5(1) e6(1) s0 by simp
  show "?len \<in> set (rep_errors r)" unfolding all by simp
  have "?buyer \<notin> set e1" using e1(2) by (auto simp: list_all_iff from_group_def)
  moreover have "?buyer \<notin> set e2" using e2(2) by (auto simp: list_all_iff from_group_def)
  moreover have "?buyer \<notin> set e3" using e3(2) by (auto simp: list_all_iff from_group_def)
  moreover have "?buyer \<notin> set e5" using e5(2) by (auto simp: list_all_iff from_group_def)
  moreover have "?buyer \<notin> set e6" using e6(2) by (auto simp: list_all_iff from_group_def)
  ultimately show "?buyer \<notin> set (rep_errors r)" unfolding all by simp
qed

theorem C3_single_partner_only_length_violation_witness:
  "partner_details (invoice (new_validator supplierOnlyData))
      = Inr (JArr (elements (prop_of (prop_of supplierOnlyData ''PartnerSection'')
                ''PartnerDetails'')))
   \<and> length (elements (prop_of (prop_of supplierOnlyData ''PartnerSection'')
                ''PartnerDetails'')) < 2
   \<and> recorded (new_validator supplierOnlyData)
        (snd (validatePartners (new_validator supplierOnlyData))) =
      [''Partners: 'PartnerSection.PartnerDetails' must be an array with at least a supplier and a buyer.'']
   \<and> fst (validate (\<lambda>n. []) (new_validator supplierOnlyData)) =
       Inr \<lparr>isValid = False,
            rep_errors =
             [''Partners: 'PartnerSection.PartnerDetails' must be an array with at least a supplier and a buyer.'']\<rparr>
   \<and> ''Partners: A buyer with functionCode 'I-61' is required.''
       \<notin> set (rep_errors \<lparr>isValid = False,
            rep_errors =
             [''Partners: 'PartnerSection.PartnerDetails' must be an array with at least a supplier and a buyer.'']\<rparr>)"
proof -
  let ?ps = "elements (prop_of (prop_of supplierOnlyData ''PartnerSection'') ''PartnerDetails'')"
  have h1: "partner_details (invoice (new_validator supplierOnlyData)) = Inr (JArr ?ps)"
    by code_simp
  have h2: "length ?ps < 2" by code_simp
  have run: "fst (validate (\<lambda>n. []) (new_validator supplierOnlyData)) =
       Inr \<lparr>isValid = False,
            rep_errors =
             [''Partners: 'PartnerSection.PartnerDetails' must be an array with at least a supplier and a buyer.'']\<rparr>"
    by code_simp
  from C3_single_partner_only_length_violation [OF h1 h2, of "\<lambda>n. []"] run h1 h2
  show ?thesis by blast
qed

text \<open>The claim as it was stated fails on the example document with the supplier as the
  only partner: the report holds the length violation alone.\<close>

theorem C3_counterexample:
  "fst (validate (\<lambda>n. []) (new_validator supplierOnlyData)) =
     Inr \<lparr>isValid = False,
          rep_errors =
            [''Partners: 'PartnerSection.PartnerDetails' must be an array with at least a supplier and a buyer.'']\<rparr>
   \<and> ''Partners: A buyer with functionCode 'I-61' is required.'' \<notin> set
        [''Partners: 'PartnerSection.PartnerDetails' must be an array with at least a supplier and a buyer.'']"
  by code_simp

subsection \<open>The totals and the tax\<close>

lemma validateTotals_missing_amounts:
  assumes "amount_details (invoice s) = Inr amounts"
    and "\<not> truthy amounts \<or> \<not> is_array amounts"
  shows "validateTotals s =
    (Normal, s\<lparr>errors := errors s @ [''Totals: 'InvoiceMoa.AmountDetails' array is missing.'']\<rparr>)"
  using assms by (auto simp: validateTotals_def eval_then_def addError_def)

text \<open>
  Claim C2. On the empty document \<open>{}\<close> the totals group records that the amounts are
  missing and returns: the check of the tax summary, which follows that \<open>return\<close> in the
  same method, does not run, and the report has no violation for the missing tax summary.
\<close>

theorem C2_empty_document:
  "fst (validate nts (new_validator (JObj []))) =
     Inr \<lparr>isValid = False,
          rep_errors =
            [''Root: TEIF version must be '2.0'.'',
             ''Root: 'controlingAgency' must be 'TTN'.'',
             ''Structure: 'InvoiceHeader' object is missing.'',
             ''Body: 'Bgm.DocumentIdentifier' (Invoice ID) is missing.'',
             ''Body: 'Bgm.DocumentType.code' must be 'I-11' for an invoice.'',
             ''Body: 'Dtm' entry with functionCode 'I-31' (Issue Date) is missing.'',
             ''Partners: 'PartnerSection.PartnerDetails' must be an array with at least a supplier and a buyer.'',
             ''Lines: 'LinSection[0].Lin' must be an array with at least one line item.'',
             ''Totals: 'InvoiceMoa.AmountDetails' array is missing.'']\<rparr>
   \<and> (\<exists>r. fst (validate nts (new_validator (JObj []))) = Inr r
          \<and> ''Totals: 'InvoiceMoa.AmountDetails' array is missing.'' \<in> set (rep_errors r)
          \<and> ''Tax: 'InvoiceTax' object is missing.'' \<notin> set (rep_errors r))"
proof -
  have run: "fst (validate nts (new_validator (JObj []))) =
     Inr \<lparr>isValid = False,
          rep_errors =
            [''Root: TEIF version must be '2.0'.'',
             ''Root: 'controlingAgency' must be 'TTN'.'',
             ''Structure: 'InvoiceHeader' object is missing.'',
             ''Body: 'Bgm.DocumentIdentifier' (Invoice ID) is missing.'',
             ''Body: 'Bgm.DocumentType.code' must be 'I-11' for an invoice.'',
             ''Body: 'Dtm' entry with functionCode 'I-31' (Issue Date) is missing.'',
             ''Partners: 'PartnerSection.PartnerDetails' must be an array with at least a supplier and a buyer.'',
             ''Lines: 'LinSection[0].Lin' must be an array with at least one line item.'',
             ''Totals: 'InvoiceMoa.AmountDetails' array is missing.'']\<rparr>"
    by code_simp
  then show ?thesis by simp
qed

subsection \<open>Exceptions\<close>















end
